theory Spec2Isabelle
  imports Main "HOL-Library.Multiset" "HOL-Library.Char_ord" "HOL-Library.List_Lexorder"
    "HOL-Library.Product_Lexorder"
begin

section \<open>Data model of the capabilities controller (index.ts)\<close>

text \<open>
  A caveat is \<open>{type, value}\<close>. The payload \<open>value\<close> is opaque data; it is a type
  parameter here, compared by HOL equality (which stands for deep structural equality).
\<close>

record 'v IOcapLdCaveat =
  caveat_type :: string
  caveat_value :: "'v"

text \<open>
  \<open>class Capability\<close>. The field \<open>caveats\<close> is \<open>IOcapLdCaveat[] | undefined\<close>;
  \<open>None\<close> is \<open>undefined\<close>. The field \<open>id\<close> is named \<open>id_cap\<close>, the field
  \<open>'@context'\<close> is \<open>context_ld\<close>.
\<close>

record 'v IOcapLdCapability =
  context_ld :: "string list"
  parentCapability :: string
  caveats :: "'v IOcapLdCaveat list option"
  id_cap :: string
  date :: int
  invoker :: string

text \<open>
  An entry of \<open>IRequestedPermissions\<close> (\<open>requests[m]\<close>, \<open>approved[m]\<close>): the code reads
  only its \<open>caveats\<close> property, so the entry is that property's value. A JavaScript
  object used as a dictionary is the list of its (key, value) pairs in enumeration
  order; the pairs are the object's own properties, and the object inherits no
  enumerable ones, so that \<open>Object.keys\<close> and \<open>for ... in\<close> go through the same list.
\<close>

type_synonym 'v IMethodRequest = "'v IOcapLdCaveat list option"

type_synonym 'v IRequestedPermissions = "(string \<times> 'v IMethodRequest) list"

subsection \<open>String primitives of the host language\<close>

text \<open>\<open>String.prototype.indexOf\<close> for a one-character pattern: \<open>-1\<close> when absent.\<close>

fun indexOf :: "char \<Rightarrow> string \<Rightarrow> int" where
  "indexOf ch [] = - 1"
| "indexOf ch (c # cs) =
     (if c = ch then 0
      else (let i = indexOf ch cs in if i < 0 then - 1 else i + 1))"

text \<open>
  \<open>String.prototype.split\<close> for a one-character separator: a string with \<open>n\<close>
  separators gives \<open>n + 1\<close> segments, some of them possibly empty.
\<close>

fun split :: "char \<Rightarrow> string \<Rightarrow> string list" where
  "split sep [] = [[]]"
| "split sep (c # cs) =
     (if c = sep then [] # split sep cs
      else (case split sep cs of
              seg # segs \<Rightarrow> (c # seg) # segs
            | [] \<Rightarrow> [[c]]))"

subsection \<open>getMethodKeyFor\<close>

text \<open>
  The loop of \<open>getMethodKeyFor\<close>:
  \<open>while (segments.length > 0 && !managedMethods.includes(managed))
       managed += segments.shift() + '_'\<close>.
\<close>

fun accumulate :: "string list \<Rightarrow> string list \<Rightarrow> string \<Rightarrow> string" where
  "accumulate managedMethods [] managed = managed"
| "accumulate managedMethods (segment # segments) managed =
     (if managed \<notin> set managedMethods
      then accumulate managedMethods segments (managed @ segment @ ''_'')
      else managed)"

text \<open>
  \<open>managedMethods\<close> is \<open>Object.keys(this.restrictedMethods)\<close>. The empty string is the
  result for a method that no restricted method manages.
\<close>

definition getMethodKeyFor :: "string list \<Rightarrow> string \<Rightarrow> string" where
  "getMethodKeyFor managedMethods method =
     (if method \<in> set managedMethods then method
      else if indexOf CHR ''_'' method > 0 then
        (let managed = accumulate managedMethods (split CHR ''_'' method) '''' in
         if managed \<in> set managedMethods then managed else '''')
      else (if method \<in> set managedMethods then method else ''''))"

subsection \<open>Requests, state, configuration and outcomes\<close>

text \<open>
  \<open>IOriginMetadata\<close> is \<open>{origin, id?}\<close>; the field \<open>id\<close> is named \<open>id_meta\<close>.
\<close>

record IOriginMetadata =
  origin :: string
  id_meta :: "string option"

text \<open>
  The values a request's \<open>params\<close> array can hold, as far as the code tells them apart:
  \<open>null\<close>, a primitive (boolean, number, string), an array, and a plain object. A
  property of a plain object is read either as a permission descriptor
  (\<open>req.params[0][methodName]\<close>) or as request metadata (\<open>req.params[1].metadata\<close>).
\<close>

datatype 'v field =
    Descriptor "'v IMethodRequest"
  | Metadata IOriginMetadata

datatype 'v param =
    PNull
  | PPrimitive
  | PArray
  | PObject "(string \<times> 'v field) list"

text \<open>\<open>JsonRpcRequest\<close>: the field \<open>method\<close> is named \<open>method_rpc\<close>, and \<open>params = None\<close> is a request without (or with falsy) \<open>params\<close>.\<close>

record 'v JsonRpcRequest =
  method_rpc :: string
  params :: "'v param list option"

record 'v RpcCapDomainEntry =
  permissions :: "'v IOcapLdCapability list"

record 'v IPermissionsRequest =
  origin_req :: string
  metadata :: IOriginMetadata
  permissions_req :: "'v IRequestedPermissions"

text \<open>
  Entry objects \<open>{permissions: [...]}\<close> are mutable and are stored by reference:
  \<open>setDomain\<close> keeps the caller's object, and \<open>addPermissionsFor\<close> and
  \<open>removePermissionsFor\<close> assign into the stored object. So an entry object is an
  address, and the state holds the content of every entry object created so far.
  (The permission arrays themselves are never changed once another object can see them:
  \<open>filter\<close> makes a new array before anything is pushed. So they are values.)
\<close>

type_synonym addr = nat

text \<open>
  The registry \<open>state.domains\<close> is a plain object. A read \<open>domains[k]\<close> finds an own
  property first and then the prototype chain, so it also finds the names that every
  plain object inherits from \<open>Object.prototype\<close>. Among them \<open>__proto__\<close> is an
  accessor: while the object has no own property of that name, reading it gives the
  object's prototype and assigning an object to it replaces the prototype. The model
  keeps the own properties and, in \<open>prototype\<close>, the entry object that an assignment
  \<open>domains['__proto__'] = entry\<close> has installed (\<open>None\<close>: the prototype is still
  \<open>Object.prototype\<close>).
\<close>

record registry =
  own_props :: "string \<rightharpoonup> addr"
  prototype :: "addr option"

text \<open>
  What a read \<open>domains[k]\<close> gives: \<open>undefined\<close>; or an inherited value that is truthy
  and has no property \<open>permissions\<close> (a function of \<open>Object.prototype\<close>,
  \<open>Object.prototype\<close> itself, or the array \<open>permissions\<close> of an entry installed as
  prototype); or an entry object.
\<close>

datatype property = Undefined | Inherited | Entry addr

text \<open>
  The controller's state. \<open>domains\<close> and \<open>permissionsRequests\<close> may be \<open>undefined\<close>
  (\<open>None\<close>) until first written. \<open>entries a\<close> is the content of the entry object at
  address \<open>a\<close>, and \<open>allocated\<close> counts the entry objects created so far, so that a
  new one gets the address \<open>allocated\<close>. \<open>uuidCalls\<close> counts the identifiers drawn
  from \<open>uuid()\<close> so far.
\<close>

record 'v CapabilitiesState =
  domains :: "registry option"
  entries :: "addr \<Rightarrow> 'v RpcCapDomainEntry"
  allocated :: nat
  permissionsRequests :: "'v IPermissionsRequest list option"
  uuidCalls :: nat

text \<open>
  The outside world: the \<open>n\<close>-th call of \<open>uuid()\<close> returns \<open>uuid env n\<close>, and
  \<open>Date.now()\<close> read at that moment returns \<open>now env n\<close>.
\<close>

record environment =
  uuid :: "nat \<Rightarrow> string"
  now :: "nat \<Rightarrow> int"

text \<open>
  The configuration. A restricted method's implementation is opaque (type \<open>'m\<close>);
  \<open>method_impl = None\<close> is an entry whose \<open>method\<close> is not a function.
\<close>

record 'm RestrictedMethodEntry =
  description :: string
  method_impl :: "'m option"

record 'm CapabilitiesConfig =
  safeMethods :: "string list"
  restrictedMethods :: "(string \<times> 'm RestrictedMethodEntry) list"
  methodPrefix :: string

text \<open>
  The exceptions of the host language, and the protocol errors of \<open>src/errors\<close>;
  \<open>Caught x\<close> is the error \<open>{message: err.message, code: 1}\<close> that the router makes
  of an exception \<open>x\<close> it catches, and \<open>Rejection r\<close> the reason of a rejected approval.
\<close>

datatype exception = TypeError

datatype rpc_error =
    Unauthorized
  | InvalidReq
  | USER_REJECTED_ERROR
  | METHOD_NOT_FOUND
  | Caught exception
  | Rejection string

text \<open>
  What \<open>executeMethod\<close> pushes onto its engine for one caveat: the caveat function
  that a registered generator makes of it, or the value that an inherited name of the
  registry returns for it, which is not a function.
\<close>

datatype 'v stage = CaveatFn "'v IOcapLdCaveat" | NotAFunction "'v IOcapLdCaveat"

text \<open>
  What one middleware call does with \<open>(req, res, next, end)\<close>:
  \<^item> \<open>Next\<close>: \<open>next()\<close> is called;
  \<^item> \<open>End_error e\<close>: \<open>res.error = e\<close>, then \<open>end(e)\<close>;
  \<^item> \<open>End_result ps\<close>: \<open>res.result = ps\<close>, then \<open>end()\<close>; \<open>ps = None\<close> is the
    result \<open>undefined\<close>;
  \<^item> \<open>Invoke m\<close>: the restricted method \<open>m\<close> is called with \<open>(req, res, next, end)\<close>;
  \<^item> \<open>Pipeline stages m\<close>: a fresh engine holding the \<open>stages\<close>, in this order, and
    then \<open>m\<close>, is run on the request;
  \<^item> \<open>Throws x\<close>: the call throws \<open>x\<close> to its caller;
  \<^item> \<open>AwaitApproval r\<close>: the call has returned and the user-approval promise for the
    pending request \<open>r\<close> is outstanding.
\<close>

datatype ('v, 'm) outcome =
    Next
  | End_error rpc_error
  | End_result "'v IOcapLdCapability list option"
  | Invoke 'm
  | Pipeline "'v stage list" 'm
  | Throws exception
  | AwaitApproval "'v IPermissionsRequest"

text \<open>How the user-approval promise settles.\<close>

datatype 'v approval =
    Resolved "'v IRequestedPermissions"
  | Rejected string

subsection \<open>The Capability constructor\<close>

definition Capability ::
  "environment \<Rightarrow> nat \<Rightarrow> string \<Rightarrow> 'v IOcapLdCaveat list option \<Rightarrow> string \<Rightarrow> 'v IOcapLdCapability"
where
  "Capability env n method_name cavs invoker_name =
     \<lparr>context_ld = [''https://github.com/MetaMask/json-rpc-capabilities-middleware''],
      parentCapability = method_name,
      caveats = cavs,
      id_cap = uuid env n,
      date = now env n,
      invoker = invoker_name\<rparr>"

subsection \<open>Plain objects of the host language\<close>

text \<open>The property names that every plain object inherits from \<open>Object.prototype\<close>.\<close>

definition objectPrototype :: "string list" where
  "objectPrototype =
     [''constructor'', ''__defineGetter__'', ''__defineSetter__'', ''hasOwnProperty'',
      ''__lookupGetter__'', ''__lookupSetter__'', ''isPrototypeOf'', ''propertyIsEnumerable'',
      ''toString'', ''valueOf'', ''__proto__'', ''toLocaleString'']"

definition emptyObject :: registry where
  "emptyObject = \<lparr>own_props = Map.empty, prototype = None\<rparr>"

text \<open>The read \<open>domains[k]\<close>.\<close>

definition getProperty :: "registry \<Rightarrow> string \<Rightarrow> property" where
  "getProperty obj k =
     (case own_props obj k of
        Some a \<Rightarrow> Entry a
      | None \<Rightarrow>
          if k = ''__proto__'' then
            (case prototype obj of Some a \<Rightarrow> Entry a | None \<Rightarrow> Inherited)
          else if prototype obj \<noteq> None \<and> k = ''permissions'' then Inherited
          else if k \<in> set objectPrototype then Inherited
          else Undefined)"

text \<open>
  The assignment \<open>domains[k] = entry\<close>: it makes or overwrites an own property, except
  for \<open>__proto__\<close> on an object without an own property of that name, where it
  replaces the prototype.
\<close>

definition setProperty :: "registry \<Rightarrow> string \<Rightarrow> addr \<Rightarrow> registry" where
  "setProperty obj k a =
     (if k = ''__proto__'' \<and> own_props obj k = None then obj\<lparr>prototype := Some a\<rparr>
      else obj\<lparr>own_props := (own_props obj)(k \<mapsto> a)\<rparr>)"

text \<open>\<open>delete domains[k]\<close> removes an own property and nothing else.\<close>

definition deleteProperty :: "registry \<Rightarrow> string \<Rightarrow> registry" where
  "deleteProperty obj k = obj\<lparr>own_props := (own_props obj)(k := None)\<rparr>"

subsection \<open>The permission store\<close>

definition getDomains :: "'v CapabilitiesState \<Rightarrow> registry" where
  "getDomains s = (case domains s of None \<Rightarrow> emptyObject | Some ds \<Rightarrow> ds)"

definition setDomains :: "registry \<Rightarrow> 'v CapabilitiesState \<Rightarrow> 'v CapabilitiesState" where
  "setDomains ds s = s\<lparr>domains := Some ds\<rparr>"

text \<open>
  \<open>getPermissionsForDomain\<close>: when \<open>domains[domain]\<close> is truthy its \<open>permissions\<close>
  property is returned, which is \<open>undefined\<close> (\<open>None\<close>) for an inherited value.
\<close>

definition getPermissionsForDomain ::
  "string \<Rightarrow> 'v CapabilitiesState \<Rightarrow> 'v IOcapLdCapability list option" where
  "getPermissionsForDomain domain s =
     (case getProperty (getDomains s) domain of
        Entry a \<Rightarrow> Some (permissions (entries s a))
      | Inherited \<Rightarrow> None
      | Undefined \<Rightarrow> Some [])"

text \<open>\<open>getPermission\<close> calls \<open>filter\<close> on that result: a \<open>TypeError\<close> on \<open>undefined\<close>.\<close>

definition getPermission ::
  "string \<Rightarrow> string \<Rightarrow> 'v CapabilitiesState \<Rightarrow> exception + 'v IOcapLdCapability option" where
  "getPermission domain method_name s =
     (case getPermissionsForDomain domain s of
        None \<Rightarrow> Inl TypeError
      | Some perms \<Rightarrow>
          Inr (case filter (\<lambda>p. parentCapability p = method_name) perms of
                 [] \<Rightarrow> None
               | p # _ \<Rightarrow> Some p))"

text \<open>
  \<open>getDomainSettings\<close> tests \<open>Object.keys(domains).includes(domain)\<close>, that is, whether
  the domain is an own property. If not, it creates an empty entry object and assigns
  it into the registry object it got from \<open>getDomains()\<close>. That object is the state's
  own when \<open>state.domains\<close> is defined, and a throw-away \<open>{}\<close> otherwise; so the
  function returns the state as well as the entry object.
\<close>

definition getDomainSettings ::
  "string \<Rightarrow> 'v CapabilitiesState \<Rightarrow> addr \<times> 'v CapabilitiesState" where
  "getDomainSettings domain s =
     (case own_props (getDomains s) domain of
        None \<Rightarrow>
          (let newDomain = allocated s;
               s1 = s\<lparr>entries := (entries s)(newDomain := \<lparr>permissions = []\<rparr>),
                      allocated := Suc (allocated s)\<rparr>
           in (newDomain,
               case domains s of
                 None \<Rightarrow> s1
               | Some ds \<Rightarrow> s1\<lparr>domains := Some (setProperty ds domain newDomain)\<rparr>))
      | Some entry \<Rightarrow> (entry, s))"

text \<open>\<open>getDomainSettings\<close> never returns \<open>undefined\<close>, so the entry is passed on.\<close>

definition getOrCreateDomainSettings ::
  "string \<Rightarrow> 'v CapabilitiesState \<Rightarrow> addr \<times> 'v CapabilitiesState" where
  "getOrCreateDomainSettings domain s = getDomainSettings domain s"

text \<open>\<open>setDomain\<close> is given an entry object and stores that very object.\<close>

definition setDomain :: "string \<Rightarrow> addr \<Rightarrow> 'v CapabilitiesState \<Rightarrow> 'v CapabilitiesState" where
  "setDomain domain domainSettings s =
     (let ds = getDomains s in
      if length (permissions (entries s domainSettings)) > 0
      then setDomains (setProperty ds domain domainSettings) s
      else setDomains (deleteProperty ds domain) s)"

text \<open>
  \<open>newPermissions\<close> is an object from method names to capabilities. The old
  permissions are filtered by its keys; the new ones are built from each value's
  \<open>parentCapability\<close> and \<open>caveats\<close>, each construction drawing one identifier.
  The new list is assigned into the entry object that \<open>getOrCreateDomainSettings\<close>
  returned, which is then handed to \<open>setDomain\<close>.
\<close>

definition addPermissionsFor ::
  "environment \<Rightarrow> string \<Rightarrow> (string \<times> 'v IOcapLdCapability) list \<Rightarrow>
   'v CapabilitiesState \<Rightarrow> 'v CapabilitiesState" where
  "addPermissionsFor env domainName newPermissions s =
     (case getOrCreateDomainSettings domainName s of
        (domain, s1) \<Rightarrow>
          (let newKeys = map fst newPermissions;
               kept = filter (\<lambda>oldPerm. parentCapability oldPerm \<notin> set newKeys)
                        (permissions (entries s1 domain));
               n = uuidCalls s1;
               created = map (\<lambda>(i, methodName, newPerm).
                               Capability env (n + i) (parentCapability newPerm)
                                 (caveats newPerm) domainName)
                           (enumerate 0 newPermissions);
               s2 = s1\<lparr>entries := (entries s1)(domain := \<lparr>permissions = kept @ created\<rparr>),
                      uuidCalls := n + length newPermissions\<rparr>
           in setDomain domainName domain s2))"

text \<open>
  \<open>removePermissionsFor\<close> assigns the filtered list into the entry object that
  \<open>getDomainSettings\<close> returned (its test for \<open>undefined\<close> never fires) and hands the
  object to \<open>setDomain\<close>.
\<close>

definition removePermissionsFor ::
  "string \<Rightarrow> 'v IOcapLdCapability list \<Rightarrow> 'v CapabilitiesState \<Rightarrow> 'v CapabilitiesState" where
  "removePermissionsFor domainName permissionsToRemove s =
     (case getDomainSettings domainName s of
        (domain, s1) \<Rightarrow>
          (let s2 = s1\<lparr>entries := (entries s1)(domain :=
                      \<lparr>permissions =
                         filter (\<lambda>perm. \<not> list_ex (\<lambda>r. parentCapability r = parentCapability perm)
                                            permissionsToRemove)
                           (permissions (entries s1 domain))\<rparr>)\<rparr>
           in setDomain domainName domain s2))"

definition clearDomains :: "'v CapabilitiesState \<Rightarrow> 'v CapabilitiesState" where
  "clearDomains s = setDomains emptyObject s"

text \<open>
  An object literal \<open>{permissions: perms}\<close> in the host's code, for instance the
  argument of a call of \<open>setDomain\<close>: a new entry object.
\<close>

definition newEntry ::
  "'v IOcapLdCapability list \<Rightarrow> 'v CapabilitiesState \<Rightarrow> addr \<times> 'v CapabilitiesState" where
  "newEntry perms s =
     (allocated s,
      s\<lparr>entries := (entries s)(allocated s := \<lparr>permissions = perms\<rparr>),
        allocated := Suc (allocated s)\<rparr>)"

subsection \<open>hasPermissions\<close>

text \<open>
  Modelled from the spec: \<open>caveatEqual\<close> of \<open>src/caveats\<close>, which is not among the
  sources. The spec: two caveats are equal iff their types are equal and their values
  are structurally deep-equal.
\<close>

definition caveatEqual :: "'v IOcapLdCaveat \<Rightarrow> 'v IOcapLdCaveat \<Rightarrow> bool" where
  "caveatEqual a b = (caveat_type a = caveat_type b \<and> caveat_value a = caveat_value b)"

text \<open>
  Modelled from the spec: \<open>sortCaveats\<close> of \<open>src/caveats\<close>, which is not among the
  sources. The spec: a stable sort, ascending by type and within equal type by value;
  an absent list is left alone.
\<close>

definition sortCaveats :: "('v::linorder) IOcapLdCaveat list \<Rightarrow> 'v IOcapLdCaveat list" where
  "sortCaveats cs = sort_key (\<lambda>c. (caveat_type c, caveat_value c)) cs"

text \<open>
  The \<open>reduce\<close> that indexes the domain's permissions by method name: a later one
  wins. The index starts as \<open>{}\<close>, a plain object, so the assignment
  \<open>acc['__proto__'] = perm\<close> makes \<open>perm\<close> the prototype of the index and creates no
  own property.
\<close>

record 'v existing_index =
  own_index :: "string \<rightharpoonup> 'v IOcapLdCapability"
  index_prototype :: "'v IOcapLdCapability option"

definition assignIndex ::
  "'v existing_index \<Rightarrow> 'v IOcapLdCapability \<Rightarrow> 'v existing_index" where
  "assignIndex acc perm =
     (if parentCapability perm = ''__proto__'' then acc\<lparr>index_prototype := Some perm\<rparr>
      else acc\<lparr>own_index := (own_index acc)(parentCapability perm \<mapsto> perm)\<rparr>)"

definition existingByMethod :: "'v IOcapLdCapability list \<Rightarrow> 'v existing_index" where
  "existingByMethod perms =
     foldl assignIndex \<lparr>own_index = Map.empty, index_prototype = None\<rparr> perms"

text \<open>
  A read \<open>existing[key]\<close>, as far as \<open>hasPermissions\<close> looks at it: a capability
  (\<open>Held\<close>), some other truthy value, which has no property \<open>caveats\<close>
  (\<open>HeldInherited\<close>), or a falsy value (\<open>NotHeld\<close>).
\<close>

datatype 'v existing_property = NotHeld | HeldInherited | Held "'v IOcapLdCapability"

text \<open>
  A name read through a capability that is the prototype of the index: the
  capability's own properties (an array is truthy, the empty string, \<open>0\<close> and
  \<open>undefined\<close> are not), then the names of the class \<open>Capability\<close>
  (\<open>constructor\<close>, \<open>toJSON\<close>, \<open>toString\<close>), then those of \<open>Object.prototype\<close>.
\<close>

definition capabilityProperty :: "'v IOcapLdCapability \<Rightarrow> string \<Rightarrow> 'v existing_property" where
  "capabilityProperty perm key =
     (if key = ''@context'' then HeldInherited
      else if key = ''parentCapability'' then
        (if parentCapability perm = '''' then NotHeld else HeldInherited)
      else if key = ''caveats'' then (if caveats perm = None then NotHeld else HeldInherited)
      else if key = ''id'' then (if id_cap perm = '''' then NotHeld else HeldInherited)
      else if key = ''date'' then (if date perm = 0 then NotHeld else HeldInherited)
      else if key = ''invoker'' then (if invoker perm = '''' then NotHeld else HeldInherited)
      else if key = ''toJSON'' \<or> key \<in> set objectPrototype then HeldInherited
      else NotHeld)"

text \<open>
  The read finds an own property, or else goes up the prototype chain: \<open>__proto__\<close>
  reads the prototype itself, which is \<open>Object.prototype\<close> unless a capability has
  taken its place.
\<close>

definition existingProperty :: "'v existing_index \<Rightarrow> string \<Rightarrow> 'v existing_property" where
  "existingProperty existing key =
     (case own_index existing key of
        Some perm \<Rightarrow> Held perm
      | None \<Rightarrow>
          (case index_prototype existing of
             Some perm \<Rightarrow> if key = ''__proto__'' then Held perm else capabilityProperty perm key
           | None \<Rightarrow> if key \<in> set objectPrototype then HeldInherited else NotHeld))"

text \<open>
  The loops over \<open>j\<close> and \<open>k\<close>: every requested caveat has an equal existing caveat.
\<close>

definition eachRequestedHasEqual ::
  "'v IOcapLdCaveat list \<Rightarrow> 'v IOcapLdCaveat list \<Rightarrow> bool" where
  "eachRequestedHasEqual requestedCaveats existingCaveats =
     list_all (\<lambda>r. list_ex (\<lambda>e. caveatEqual r e) existingCaveats) requestedCaveats"

text \<open>
  One round of the second loop, given the requested and the existing caveats: true
  when the loop goes on, false when the function returns \<open>false\<close>. A list, even an
  empty one, is truthy; only \<open>undefined\<close> is not.
\<close>

definition compareCaveats ::
  "'v IOcapLdCaveat list option \<Rightarrow> 'v IOcapLdCaveat list option \<Rightarrow> bool" where
  "compareCaveats requestedCaveats existingCaveats =
     (case (requestedCaveats, existingCaveats) of
        (None, None) \<Rightarrow> True
      | (None, Some ec) \<Rightarrow> False
      | (Some rc, None) \<Rightarrow> False
      | (Some rc, Some ec) \<Rightarrow>
          (if length rc \<noteq> length ec then False
           else eachRequestedHasEqual rc ec))"

text \<open>
  The second loop over the request keys. The first loop has established that
  \<open>existing[key]\<close> is truthy for every key, so the \<open>NotHeld\<close> case is never taken
  there.
\<close>

fun caveatsAgree ::
  "'v existing_index \<Rightarrow> 'v IRequestedPermissions \<Rightarrow> bool" where
  "caveatsAgree existing [] = True"
| "caveatsAgree existing ((key, requestedCaveats) # rest) =
     (case existingProperty existing key of
        NotHeld \<Rightarrow> False
      | HeldInherited \<Rightarrow>
          (if compareCaveats requestedCaveats None then caveatsAgree existing rest else False)
      | Held perm \<Rightarrow>
          (if compareCaveats requestedCaveats (caveats perm) then caveatsAgree existing rest
           else False))"

text \<open>\<open>hasPermissions\<close> calls \<open>reduce\<close> on the domain's permissions: a \<open>TypeError\<close> on \<open>undefined\<close>.\<close>

definition hasPermissions ::
  "string \<Rightarrow> 'v IRequestedPermissions \<Rightarrow> 'v CapabilitiesState \<Rightarrow> exception + bool" where
  "hasPermissions domain requests s =
     (case getPermissionsForDomain domain s of
        None \<Rightarrow> Inl TypeError
      | Some perms \<Rightarrow>
          (let existing = existingByMethod perms;
               requestKeys = map fst requests
           in if list_ex (\<lambda>key. existingProperty existing key = NotHeld) requestKeys then Inr False
              else Inr (caveatsAgree existing requests)))"

subsection \<open>The queue of pending permission requests\<close>

definition getPermissionsRequests :: "'v CapabilitiesState \<Rightarrow> 'v IPermissionsRequest list" where
  "getPermissionsRequests s = (case permissionsRequests s of None \<Rightarrow> [] | Some reqs \<Rightarrow> reqs)"

definition setPermissionsRequests ::
  "'v IPermissionsRequest list \<Rightarrow> 'v CapabilitiesState \<Rightarrow> 'v CapabilitiesState" where
  "setPermissionsRequests reqs s = s\<lparr>permissionsRequests := Some reqs\<rparr>"

definition removePermissionsRequest :: "string \<Rightarrow> 'v CapabilitiesState \<Rightarrow> 'v CapabilitiesState" where
  "removePermissionsRequest requestId s =
     setPermissionsRequests
       (filter (\<lambda>oldReq. id_meta (metadata oldReq) \<noteq> Some requestId) (getPermissionsRequests s)) s"

subsection \<open>grantNewPermissions\<close>

text \<open>
  The first loop ends with \<open>METHOD_NOT_FOUND\<close> at the first approved name whose method
  key is the (falsy) empty string, before anything is built or stored. The second loop
  builds one capability per approved name and collects them in a fresh object under
  the same names, which \<open>addPermissionsFor\<close> then goes through; the names are taken to
  be such that the assignment creates a property (it does for every name but
  \<open>__proto__\<close>).
\<close>

definition grantNewPermissions ::
  "environment \<Rightarrow> 'm CapabilitiesConfig \<Rightarrow> string \<Rightarrow> 'v IRequestedPermissions \<Rightarrow>
   'v CapabilitiesState \<Rightarrow> ('v, 'm) outcome \<times> 'v CapabilitiesState" where
  "grantNewPermissions env cfg domain approved s =
     (if list_ex (\<lambda>(methodName, _).
            getMethodKeyFor (map fst (restrictedMethods cfg)) methodName = '''') approved
      then (End_error METHOD_NOT_FOUND, s)
      else
        (let n = uuidCalls s;
             perms = map (\<lambda>(i, method_name, req_caveats).
                            (method_name, Capability env (n + i) method_name req_caveats domain))
                       (enumerate 0 approved);
             s1 = s\<lparr>uuidCalls := n + length approved\<rparr>;
             s2 = addPermissionsFor env domain perms s1
         in (End_result (getPermissionsForDomain domain s2), s2)))"

subsection \<open>The restricted-method executor\<close>

text \<open>The keys of \<open>this.caveats = { filterParams, filterResponse }\<close>.\<close>

definition caveatFnGens :: "string list" where
  "caveatFnGens = [''filterParams'', ''filterResponse'']"

text \<open>
  The \<open>forEach\<close> over the permission's caveats: \<open>caveatFnGens[serializedCaveat.type]\<close>
  is called on the caveat and the result is pushed. The registry is a plain object: a
  type that is none of its keys reads \<open>undefined\<close> or an inherited name of
  \<open>Object.prototype\<close>. Calling \<open>undefined\<close> or the object read under \<open>__proto__\<close>
  throws a \<open>TypeError\<close>, and so do the inherited functions when called without a
  receiver, except \<open>constructor\<close> (which returns the caveat) and \<open>toString\<close> (which
  returns a string): what these two return is pushed all the same.
\<close>

fun pushCaveats :: "'v IOcapLdCaveat list \<Rightarrow> exception + 'v stage list" where
  "pushCaveats [] = Inr []"
| "pushCaveats (serializedCaveat # rest) =
     (if caveat_type serializedCaveat \<in> set caveatFnGens
      then (case pushCaveats rest of
              Inl e \<Rightarrow> Inl e
            | Inr stages \<Rightarrow> Inr (CaveatFn serializedCaveat # stages))
      else if caveat_type serializedCaveat \<in> set [''constructor'', ''toString'']
      then (case pushCaveats rest of
              Inl e \<Rightarrow> Inl e
            | Inr stages \<Rightarrow> Inr (NotAFunction serializedCaveat # stages))
      else Inl TypeError)"

text \<open>
  The implementation that \<open>executeMethod\<close> dispatches to: the \<open>method\<close> of the
  restricted-method entry under the resolved method key, when that key is not the
  (falsy) empty string and the \<open>method\<close> is a function.
\<close>

definition restrictedTarget :: "'m CapabilitiesConfig \<Rightarrow> string \<Rightarrow> 'm option" where
  "restrictedTarget cfg method_name =
     (let methodKey = getMethodKeyFor (map fst (restrictedMethods cfg)) method_name
      in if methodKey \<noteq> ''''
         then Option.bind (map_of (restrictedMethods cfg) methodKey) method_impl
         else None)"

text \<open>
  \<open>executeMethod\<close> looks the permission up again; nothing catches an exception of
  that lookup here.
\<close>

definition executeMethod ::
  "'m CapabilitiesConfig \<Rightarrow> IOriginMetadata \<Rightarrow> 'v JsonRpcRequest \<Rightarrow> 'v CapabilitiesState \<Rightarrow>
   ('v, 'm) outcome" where
  "executeMethod cfg domain req s =
     (case getPermission (origin domain) (method_rpc req) s of
        Inl e \<Rightarrow> Throws e
      | Inr permission \<Rightarrow>
          (case restrictedTarget cfg (method_rpc req) of
             Some target \<Rightarrow>
               (case permission of
                  None \<Rightarrow> Invoke target
                | Some p \<Rightarrow>
                    (case caveats p of
                       None \<Rightarrow> Invoke target
                     | Some [] \<Rightarrow> Invoke target
                     | Some (c # cs) \<Rightarrow>
                         (case pushCaveats (c # cs) of
                            Inl e \<Rightarrow> Throws e
                          | Inr stages \<Rightarrow> Pipeline stages target)))
           | None \<Rightarrow> End_error METHOD_NOT_FOUND))"

subsection \<open>The permission-request workflow\<close>

fun sortField :: "('v::linorder) field \<Rightarrow> 'v field" where
  "sortField (Descriptor cavs) = Descriptor (map_option sortCaveats cavs)"
| "sortField (Metadata m) = Metadata m"

text \<open>
  The validation reads \<open>typeof req.params[0]\<close> (which is \<open>'object'\<close> for \<open>null\<close>, for an
  array and for a plain object), then \<open>Array.isArray\<close>, then \<open>Object.keys\<close>, which
  throws a \<open>TypeError\<close> on \<open>null\<close>. The result is \<open>Inr None\<close> when the function sets
  \<open>res.error = invalidReq(req)\<close> and returns \<open>false\<close>, and \<open>Inr (Some req')\<close> when it
  returns \<open>true\<close>, \<open>req'\<close> being the request with its caveats sorted in place.
\<close>

definition finalizePermissionsRequest ::
  "('v::linorder) JsonRpcRequest \<Rightarrow> exception + 'v JsonRpcRequest option" where
  "finalizePermissionsRequest req =
     (case params req of
        None \<Rightarrow> Inr None
      | Some [] \<Rightarrow> Inr None
      | Some (PPrimitive # rest) \<Rightarrow> Inr None
      | Some (PArray # rest) \<Rightarrow> Inr None
      | Some (PNull # rest) \<Rightarrow> Inl TypeError
      | Some (PObject props # rest) \<Rightarrow>
          (if length props = 0 then Inr None
           else Inr (Some (req\<lparr>params :=
                  Some (PObject (map (\<lambda>(methodName, f). (methodName, sortField f)) props) # rest)\<rparr>))))"

text \<open>Reading \<open>.metadata\<close> off a parameter: a \<open>TypeError\<close> on \<open>null\<close>.\<close>

fun metadataProperty :: "'v param \<Rightarrow> exception + 'v field option" where
  "metadataProperty PNull = Inl TypeError"
| "metadataProperty PPrimitive = Inr None"
| "metadataProperty PArray = Inr None"
| "metadataProperty (PObject props) = Inr (map_of props ''metadata'')"

text \<open>
  \<open>{ ...req.params.pop().metadata, ...metadata }\<close>: the supplied metadata wins; the
  parameter's \<open>id\<close> is taken when the supplied metadata has none.
\<close>

fun spreadUnder :: "'v field \<Rightarrow> IOriginMetadata \<Rightarrow> IOriginMetadata" where
  "spreadUnder (Metadata m) md =
     md\<lparr>id_meta := (case id_meta md of Some i \<Rightarrow> Some i | None \<Rightarrow> id_meta m)\<rparr>"
| "spreadUnder (Descriptor d) md = md"

text \<open>\<open>!metadata.id\<close>: an absent and an empty identifier are both falsy.\<close>

definition noId :: "IOriginMetadata \<Rightarrow> bool" where
  "noId md = (case id_meta md of None \<Rightarrow> True | Some i \<Rightarrow> i = '''')"

definition ensureId ::
  "environment \<Rightarrow> IOriginMetadata \<Rightarrow> 'v CapabilitiesState \<Rightarrow> IOriginMetadata \<times> 'v CapabilitiesState" where
  "ensureId env md s =
     (if noId md
      then (md\<lparr>id_meta := Some (uuid env (uuidCalls s))\<rparr>, s\<lparr>uuidCalls := Suc (uuidCalls s)\<rparr>)
      else (md, s))"

definition getFinalizedRequestMetadata ::
  "environment \<Rightarrow> IOriginMetadata \<Rightarrow> 'v JsonRpcRequest \<Rightarrow> 'v CapabilitiesState \<Rightarrow>
   exception + (IOriginMetadata \<times> 'v JsonRpcRequest \<times> 'v CapabilitiesState)" where
  "getFinalizedRequestMetadata env md req s =
     (case params req of
        None \<Rightarrow> Inl TypeError
      | Some ps \<Rightarrow>
          (if length ps = 2 then
             (case metadataProperty (ps ! 1) of
                Inl e \<Rightarrow> Inl e
              | Inr None \<Rightarrow>
                  (case ensureId env md s of (md', s') \<Rightarrow> Inr (md', req, s'))
              | Inr (Some f) \<Rightarrow>
                  (case ensureId env (spreadUnder f md) s of
                     (md', s') \<Rightarrow> Inr (md', req\<lparr>params := Some (butlast ps)\<rparr>, s')))
           else (case ensureId env md s of (md', s') \<Rightarrow> Inr (md', req, s'))))"

text \<open>\<open>req.params[0]\<close> read as \<open>IRequestedPermissions\<close>.\<close>

fun fieldCaveats :: "'v field \<Rightarrow> 'v IMethodRequest" where
  "fieldCaveats (Descriptor cavs) = cavs"
| "fieldCaveats (Metadata m) = None"

definition requestedPermissions :: "'v JsonRpcRequest \<Rightarrow> 'v IRequestedPermissions" where
  "requestedPermissions req =
     (case params req of
        Some (PObject props # rest) \<Rightarrow> map (\<lambda>(methodName, f). (methodName, fieldCaveats f)) props
      | _ \<Rightarrow> [])"

definition getPermissionsMiddleware ::
  "IOriginMetadata \<Rightarrow> 'v CapabilitiesState \<Rightarrow> ('v, 'm) outcome \<times> 'v CapabilitiesState" where
  "getPermissionsMiddleware domain s = (End_result (getPermissionsForDomain (origin domain) s), s)"

text \<open>
  \<open>requestPermissionsMiddleware\<close> up to the call of \<open>requestUserApproval\<close>: it either
  ends, or throws, or enqueues the pending request and waits.
\<close>

definition requestPermissionsMiddleware ::
  "environment \<Rightarrow> IOriginMetadata \<Rightarrow> ('v::linorder) JsonRpcRequest \<Rightarrow> 'v CapabilitiesState \<Rightarrow>
   ('v, 'm) outcome \<times> 'v CapabilitiesState" where
  "requestPermissionsMiddleware env md0 req s =
     (case finalizePermissionsRequest req of
        Inl e \<Rightarrow> (Throws e, s)
      | Inr None \<Rightarrow> (End_error InvalidReq, s)
      | Inr (Some req1) \<Rightarrow>
          (case getFinalizedRequestMetadata env md0 req1 s of
             Inl e \<Rightarrow> (Throws e, s)
           | Inr (md, req2, s1) \<Rightarrow>
               (let perms = requestedPermissions req2 in
                case hasPermissions (origin md) perms s1 of
                  Inl e \<Rightarrow> (Throws e, s1)
                | Inr True \<Rightarrow> (End_result (getPermissionsForDomain (origin md) s1), s1)
                | Inr False \<Rightarrow>
                    (let permissionsRequest =
                           \<lparr>origin_req = origin md, metadata = md, permissions_req = perms\<rparr>;
                         requests = getPermissionsRequests s1 @ [permissionsRequest]
                     in (AwaitApproval permissionsRequest, setPermissionsRequests requests s1)))))"

text \<open>
  The \<open>then\<close>, \<open>catch\<close> and \<open>finally\<close> handlers, run in state \<open>s\<close> when the approval
  promise of the pending request settles.
\<close>

definition approvalSettled ::
  "environment \<Rightarrow> 'm CapabilitiesConfig \<Rightarrow> 'v IPermissionsRequest \<Rightarrow> 'v approval \<Rightarrow>
   'v CapabilitiesState \<Rightarrow> ('v, 'm) outcome \<times> 'v CapabilitiesState" where
  "approvalSettled env cfg permissionsRequest settled s =
     (let md = metadata permissionsRequest;
          handled =
            (case settled of
               Resolved approved \<Rightarrow>
                 (if length approved = 0 then (End_error USER_REJECTED_ERROR, s)
                  else if noId md then (End_error InvalidReq, s)
                  else grantNewPermissions env cfg (origin md) approved s)
             | Rejected reason \<Rightarrow> (End_error (Rejection reason), s))
      in (fst handled,
          if noId md then snd handled
          else (case id_meta md of
                  Some i \<Rightarrow> removePermissionsRequest i (snd handled)
                | None \<Rightarrow> snd handled)))"

subsection \<open>The method router\<close>

text \<open>The keys of \<open>this.internalMethods\<close>.\<close>

definition internalMethods :: "'m CapabilitiesConfig \<Rightarrow> string list" where
  "internalMethods cfg =
     [methodPrefix cfg @ ''getPermissions'', methodPrefix cfg @ ''requestPermissions'']"

text \<open>
  The router. An exception of \<open>getPermission\<close> is caught and answered with the error
  \<open>{message: err.message, code: 1}\<close>.
\<close>

definition providerMiddlewareFunction ::
  "environment \<Rightarrow> 'm CapabilitiesConfig \<Rightarrow> IOriginMetadata \<Rightarrow> ('v::linorder) JsonRpcRequest \<Rightarrow>
   'v CapabilitiesState \<Rightarrow> ('v, 'm) outcome \<times> 'v CapabilitiesState" where
  "providerMiddlewareFunction env cfg domain req s =
     (let methodName = method_rpc req in
      if methodName \<in> set (safeMethods cfg) then (Next, s)
      else if methodName \<in> set (internalMethods cfg) then
        (if methodName = methodPrefix cfg @ ''getPermissions''
         then getPermissionsMiddleware domain s
         else requestPermissionsMiddleware env domain req s)
      else
        (case getPermission (origin domain) methodName s of
           Inl err \<Rightarrow> (End_error (Caught err), s)
         | Inr None \<Rightarrow> (End_error Unauthorized, s)
         | Inr (Some permission) \<Rightarrow> (executeMethod cfg domain req s, s)))"

section \<open>Definitions that state the properties\<close>

text \<open>
  The resolution rule in the specification's words: the candidates are the accumulated
  segments of the method, each with its trailing underscore (for \<open>a_b_c\<close> these are
  \<open>a_\<close>, \<open>a_b_\<close> and \<open>a_b_c_\<close>), the shortest one that is a restricted key is
  returned, and the rule applies when some underscore stands after position 0.
\<close>

definition join_us :: "string list \<Rightarrow> string" where
  "join_us segs = concat (map (\<lambda>seg. seg @ ''_'') segs)"

definition accumulated :: "string list \<Rightarrow> string list" where
  "accumulated segments = map (\<lambda>k. join_us (take k segments)) [1..<Suc (length segments)]"

definition spec_getMethodKeyFor :: "string list \<Rightarrow> string \<Rightarrow> string" where
  "spec_getMethodKeyFor R method_name =
     (if method_name \<in> set R then method_name
      else if CHR ''_'' \<in> set (drop 1 method_name) then
        (case find (\<lambda>p. p \<in> set R) (accumulated (split CHR ''_'' method_name)) of
           Some p \<Rightarrow> p
         | None \<Rightarrow> '''')
      else '''')"

text \<open>
  The list held by the entry object under the domain's own key, and the empty list when
  the domain is no own key: the \<open>permissions\<close> of the entry that
  \<open>getDomainSettings\<close> returns.
\<close>

definition ownPermissions :: "string \<Rightarrow> 'v CapabilitiesState \<Rightarrow> 'v IOcapLdCapability list" where
  "ownPermissions domain s =
     (case own_props (getDomains s) domain of
        Some a \<Rightarrow> permissions (entries s a)
      | None \<Rightarrow> [])"

text \<open>
  The store invariant of C9: no own key of the registry \<open>getDomains()\<close> maps to an entry
  whose permission list is empty. It is kept where, moreover, no entry object is stored
  under two keys, and every stored entry object is one of those created so far.
\<close>

definition noEmptyDomainEntry :: "'v CapabilitiesState \<Rightarrow> bool" where
  "noEmptyDomainEntry s =
     (\<forall>domain a. own_props (getDomains s) domain = Some a \<longrightarrow> permissions (entries s a) \<noteq> [])"

definition noSharedEntry :: "'v CapabilitiesState \<Rightarrow> bool" where
  "noSharedEntry s =
     (\<forall>d d' a. own_props (getDomains s) d = Some a \<and> own_props (getDomains s) d' = Some a
        \<longrightarrow> d = d')"

definition entriesAllocated :: "'v CapabilitiesState \<Rightarrow> bool" where
  "entriesAllocated s = (\<forall>d a. own_props (getDomains s) d = Some a \<longrightarrow> a < allocated s)"

definition storeInvariant :: "'v CapabilitiesState \<Rightarrow> bool" where
  "storeInvariant s = (noEmptyDomainEntry s \<and> noSharedEntry s \<and> entriesAllocated s)"

text \<open>
  What \<open>addPermissionsFor\<close> and \<open>removePermissionsFor\<close> have in common: a list is
  assigned into the entry object that \<open>getDomainSettings\<close> returns, and the object is
  handed to \<open>setDomain\<close>.
\<close>

definition assignInto ::
  "string \<Rightarrow> 'v IOcapLdCapability list \<Rightarrow> 'v CapabilitiesState \<Rightarrow> 'v CapabilitiesState" where
  "assignInto domain perms s =
     setDomain domain (fst (getDomainSettings domain s))
       ((snd (getDomainSettings domain s))
          \<lparr>entries := (entries (snd (getDomainSettings domain s)))
             (fst (getDomainSettings domain s) := \<lparr>permissions = perms\<rparr>)\<rparr>)"

subsection \<open>Concrete configurations and states for the examples\<close>

text \<open>
  An identifier source whose \<open>n\<close>-th identifier is \<open>n + 1\<close> letters \<open>u\<close>, and a clock
  that reads \<open>n\<close>. Caveat payloads are natural numbers, implementations are named by
  strings.
\<close>

definition env0 :: environment where
  "env0 = \<lparr>uuid = (\<lambda>n. replicate (Suc n) CHR ''u''), now = (\<lambda>n. int n)\<rparr>"

definition plugin_cfg :: "string CapabilitiesConfig" where
  "plugin_cfg =
     \<lparr>safeMethods = [],
      restrictedMethods =
        [(''plugin_'', \<lparr>description = ''plugins'', method_impl = Some ''pluginHandler''\<rparr>)],
      methodPrefix = ''''\<rparr>"

text \<open>
  \<open>eth_read\<close> is both safe and restricted; \<open>wallet_getPermissions\<close> is both internal
  and restricted; \<open>broken\<close> has no callable implementation.
\<close>

definition wallet_cfg :: "string CapabilitiesConfig" where
  "wallet_cfg =
     \<lparr>safeMethods = [''eth_read''],
      restrictedMethods =
        [(''eth_read'', \<lparr>description = ''read'', method_impl = Some ''readHandler''\<rparr>),
         (''readAccounts'', \<lparr>description = ''accounts'', method_impl = Some ''accountsHandler''\<rparr>),
         (''wallet_getPermissions'', \<lparr>description = ''shadowed'', method_impl = Some ''shadowed''\<rparr>),
         (''broken'', \<lparr>description = ''no function'', method_impl = None\<rparr>)],
      methodPrefix = ''wallet_''\<rparr>"

text \<open>The state a controller starts from when no partial state is supplied.\<close>

definition empty_state :: "nat CapabilitiesState" where
  "empty_state =
     \<lparr>domains = None, entries = (\<lambda>a. \<lparr>permissions = []\<rparr>), allocated = 0,
      permissionsRequests = None, uuidCalls = 0\<rparr>"

text \<open>
  A state with one domain key, whose entry object (at address 0) holds the given
  permissions.
\<close>

definition oneDomain :: "string \<Rightarrow> nat IOcapLdCapability list \<Rightarrow> nat CapabilitiesState" where
  "oneDomain domain perms =
     \<lparr>domains = Some \<lparr>own_props = [domain \<mapsto> 0], prototype = None\<rparr>,
      entries = (\<lambda>a. \<lparr>permissions = []\<rparr>)(0 := \<lparr>permissions = perms\<rparr>),
      allocated = 1,
      permissionsRequests = None,
      uuidCalls = 1\<rparr>"

text \<open>The domain \<open>o1\<close> holds one capability, for the namespace key \<open>plugin_\<close>.\<close>

definition plugin_state :: "nat CapabilitiesState" where
  "plugin_state = oneDomain ''o1'' [Capability env0 0 ''plugin_'' None ''o1'']"

text \<open>The domain \<open>o1\<close> holds one capability, for the full method name \<open>plugin_foo_bar\<close>.\<close>

definition namespaced_state :: "nat CapabilitiesState" where
  "namespaced_state = oneDomain ''o1'' [Capability env0 0 ''plugin_foo_bar'' None ''o1'']"

definition accounts_state :: "nat CapabilitiesState" where
  "accounts_state = oneDomain ''o1'' [Capability env0 0 ''readAccounts'' None ''o1'']"

text \<open>The capability of \<open>o1\<close> carries a caveat whose type is not in the registry.\<close>

definition unknown_caveat_state :: "nat CapabilitiesState" where
  "unknown_caveat_state =
     oneDomain ''o1''
       [Capability env0 0 ''readAccounts''
          (Some [\<lparr>caveat_type = ''unknownCaveat'', caveat_value = 0\<rparr>]) ''o1'']"

text \<open>The capability of \<open>o1\<close> carries a registered caveat.\<close>

definition known_caveat_state :: "nat CapabilitiesState" where
  "known_caveat_state =
     oneDomain ''o1''
       [Capability env0 0 ''readAccounts''
          (Some [\<lparr>caveat_type = ''filterResponse'', caveat_value = 0\<rparr>]) ''o1'']"

text \<open>The capability of \<open>o1\<close> carries two different caveats of the same type.\<close>

definition two_caveat_state :: "nat CapabilitiesState" where
  "two_caveat_state =
     oneDomain ''o1''
       [Capability env0 0 ''readAccounts''
          (Some [\<lparr>caveat_type = ''filterResponse'', caveat_value = 1\<rparr>,
                 \<lparr>caveat_type = ''filterResponse'', caveat_value = 2\<rparr>]) ''o1'']"

text \<open>
  One entry object, holding a capability for \<open>readAccounts\<close>, stored under the two
  keys \<open>a\<close> and \<open>b\<close>.
\<close>

definition shared_state :: "nat CapabilitiesState" where
  "shared_state =
     \<lparr>domains = Some \<lparr>own_props = [''a'' \<mapsto> 0, ''b'' \<mapsto> 0], prototype = None\<rparr>,
      entries = (\<lambda>a. \<lparr>permissions = []\<rparr>)
                  (0 := \<lparr>permissions = [Capability env0 0 ''readAccounts'' None ''a'']\<rparr>),
      allocated = 1,
      permissionsRequests = None,
      uuidCalls = 0\<rparr>"

definition pending_request :: "nat IPermissionsRequest" where
  "pending_request =
     \<lparr>origin_req = ''o1'', metadata = \<lparr>origin = ''o1'', id_meta = Some ''u''\<rparr>,
      permissions_req = [(''readAccounts'', None)]\<rparr>"

definition pending_state :: "nat CapabilitiesState" where
  "pending_state =
     \<lparr>domains = None, entries = (\<lambda>a. \<lparr>permissions = []\<rparr>), allocated = 0,
      permissionsRequests = Some [pending_request], uuidCalls = 1\<rparr>"

section \<open>Method-key resolution\<close>

lemma split_not_Nil: "split sep s \<noteq> []"
  by (induction s) (auto split: list.splits)

lemma indexOf_ge: "indexOf ch s \<ge> - 1"
  by (induction s) (auto simp: Let_def)

lemma indexOf_neg_iff: "indexOf ch s < 0 \<longleftrightarrow> ch \<notin> set s"
  using indexOf_ge[of ch] by (induction s) (auto simp: Let_def)

lemma indexOf_pos_iff: "0 < indexOf ch s \<longleftrightarrow> ch \<in> set s \<and> take 1 s \<noteq> [ch]"
proof (cases s)
  case Nil
  then show ?thesis by simp
next
  case (Cons c cs)
  show ?thesis
  proof (cases "c = ch")
    case True
    with Cons show ?thesis by simp
  next
    case False
    have "0 < indexOf ch (c # cs) \<longleftrightarrow> \<not> indexOf ch cs < 0"
      using False indexOf_ge[of ch cs] by (simp add: Let_def)
    with False Cons show ?thesis by (auto simp: indexOf_neg_iff)
  qed
qed

lemma upt_shift: "map f [1..<Suc (Suc n)] = f 1 # map (\<lambda>k. f (Suc k)) [1..<Suc n]"
proof -
  have "[1..<Suc (Suc n)] = 1 # map Suc [1..<Suc n]"
    by (metis One_nat_def map_Suc_upt upt_conv_Cons zero_less_Suc Suc_less_eq)
  then show ?thesis by (simp add: comp_def)
qed

lemma join_us_Nil: "join_us [] = []"
  by (simp add: join_us_def)

lemma join_us_Cons: "join_us (seg # segs) = seg @ ''_'' @ join_us segs"
  by (simp add: join_us_def)

text \<open>
  Two checks of \<open>split\<close> against the host language: joining the segments, each with a
  trailing separator, gives back the string and one more separator; and no segment
  contains the separator.
\<close>

lemma join_us_split: "join_us (split CHR ''_'' s) = s @ ''_''"
  by (induction s) (auto simp: join_us_def split: list.splits)

lemma split_segments_no_separator: "seg \<in> set (split sep s) \<Longrightarrow> sep \<notin> set seg"
  by (induction s arbitrary: seg) (auto split: if_splits list.splits)

text \<open>
  The loop, started at \<open>acc\<close>, stops at the first accumulation that is a managed
  method, and otherwise runs through all segments.
\<close>

lemma accumulate_find:
  "accumulate R segs acc =
     (if acc \<in> set R then acc
      else (case find (\<lambda>p. p \<in> set R)
                  (map (\<lambda>k. acc @ join_us (take k segs)) [1..<Suc (length segs)]) of
              Some p \<Rightarrow> p
            | None \<Rightarrow> acc @ join_us segs))"
proof (induction segs arbitrary: acc)
  case Nil
  then show ?case by (simp add: join_us_Nil)
next
  case (Cons seg segs)
  show ?case
  proof (cases "acc \<in> set R")
    case True
    then show ?thesis by simp
  next
    case False
    define A where "A = acc @ seg @ ''_''"
    define xs where "xs = map (\<lambda>k. A @ join_us (take k segs)) [1..<Suc (length segs)]"
    define ys where
      "ys = map (\<lambda>k. acc @ join_us (take k (seg # segs))) [1..<Suc (length (seg # segs))]"
    have m: "ys = A # xs"
      unfolding ys_def xs_def A_def
      by (simp only: length_Cons upt_shift) (simp add: join_us_Cons join_us_Nil del: upt_Suc)
    have e: "acc @ join_us (seg # segs) = A @ join_us segs"
      by (simp add: A_def join_us_Cons)
    have "accumulate R (seg # segs) acc = accumulate R segs A"
      using False by (simp add: A_def)
    also have "\<dots> = (if A \<in> set R then A
        else (case find (\<lambda>p. p \<in> set R) xs of Some p \<Rightarrow> p | None \<Rightarrow> A @ join_us segs))"
      unfolding xs_def by (rule Cons.IH)
    also have "\<dots> = (case find (\<lambda>p. p \<in> set R) ys of
        Some p \<Rightarrow> p | None \<Rightarrow> acc @ join_us (seg # segs))"
      by (simp only: m e find.simps) simp
    finally show ?thesis
      using False unfolding ys_def by simp
  qed
qed

lemma find_None_last: "find P xs = None \<Longrightarrow> xs \<noteq> [] \<Longrightarrow> \<not> P (last xs)"
  by (simp add: find_None_iff)

lemma accumulated_last: "segs \<noteq> [] \<Longrightarrow> last (accumulated segs) = join_us segs"
  by (simp add: accumulated_def last_map del: upt_Suc)

lemma getMethodKeyFor_loop:
  assumes "method_name \<notin> set R" "0 < indexOf CHR ''_'' method_name" "'''' \<notin> set R"
  shows "getMethodKeyFor R method_name =
    (case find (\<lambda>p. p \<in> set R) (accumulated (split CHR ''_'' method_name)) of
       Some p \<Rightarrow> p | None \<Rightarrow> '''')"
proof -
  let ?segs = "split CHR ''_'' method_name"
  have ne: "?segs \<noteq> []" by (rule split_not_Nil)
  have acc: "accumulate R ?segs '''' =
     (case find (\<lambda>p. p \<in> set R) (accumulated ?segs) of Some p \<Rightarrow> p | None \<Rightarrow> join_us ?segs)"
    using assms(3) by (simp add: accumulate_find accumulated_def del: upt_Suc split: option.split)
  show ?thesis
  proof (cases "find (\<lambda>p. p \<in> set R) (accumulated ?segs)")
    case None
    have "accumulated ?segs \<noteq> []"
      using ne by (cases ?segs) (simp_all add: accumulated_def del: upt_Suc)
    with None have "last (accumulated ?segs) \<notin> set R" by (rule find_None_last)
    then have "join_us ?segs \<notin> set R" using ne by (simp add: accumulated_last)
    then show ?thesis using assms None by (simp add: getMethodKeyFor_def acc)
  next
    case (Some p)
    then have "p \<in> set R" by (auto dest: find_Some_iff[THEN iffD1])
    then show ?thesis using assms Some by (simp add: getMethodKeyFor_def acc)
  qed
qed

lemma underscore_after_0:
  "take 1 method_name \<noteq> ''_'' \<Longrightarrow>
   CHR ''_'' \<in> set (drop 1 method_name) \<longleftrightarrow> 0 < indexOf CHR ''_'' method_name"
  by (cases method_name) (auto simp: indexOf_pos_iff simp del: indexOf.simps)

text \<open>The candidates grow strictly, so the first one found is the shortest.\<close>

lemma length_join_us_take:
  "j < k \<Longrightarrow> k \<le> length segs \<Longrightarrow> length (join_us (take j segs)) < length (join_us (take k segs))"
proof (induction segs arbitrary: j k)
  case Nil
  then show ?case by simp
next
  case (Cons seg segs)
  then show ?case
    by (cases j; cases k) (auto simp: join_us_Cons join_us_Nil)
qed

lemma accumulated_increasing:
  "sorted_wrt (\<lambda>a b. length a < length b) (accumulated segs)"
  by (auto simp: accumulated_def sorted_wrt_map sorted_wrt_iff_nth_less length_join_us_take
      simp del: upt_Suc)

text \<open>
  C5, as the claim states it, fails on two kinds of input. A method that begins with an
  underscore has an underscore after position 0 (\<open>_a_b\<close> has one at position 2), but
  the code tests \<open>method.indexOf('_') > 0\<close>, the position of the first underscore, and
  so never looks at its prefixes. And when the empty string is itself a restricted key
  the loop stops before the first segment is accumulated.
\<close>

theorem getMethodKeyFor_shortest_prefix_counterexample:
  "getMethodKeyFor [''_a_''] ''_a_b'' = '''' \<and>
   spec_getMethodKeyFor [''_a_''] ''_a_b'' = ''_a_'' \<and>
   getMethodKeyFor ['''', ''a_''] ''a_b'' = '''' \<and>
   spec_getMethodKeyFor ['''', ''a_''] ''a_b'' = ''a_''"
  by (simp add: getMethodKeyFor_def spec_getMethodKeyFor_def accumulated_def join_us_def)

text \<open>
  C5 (amended): for every method string and every list \<open>R\<close> of restricted keys,
  \<open>getMethodKeyFor\<close> returns the method itself when it is a restricted key. Otherwise,
  when the empty string is not a restricted key and the method does not begin with an
  underscore, it returns what the specification's rule says: if the method contains an
  underscore, the shortest accumulated underscore-terminated prefix of its segments
  that is a restricted key, and the empty string when there is none. A method that
  begins with an underscore resolves by exact match only, and so does every method when
  the empty string is a restricted key.
\<close>

theorem getMethodKeyFor_resolution:
  "('''' \<notin> set R \<and> take 1 method_name \<noteq> ''_'' \<longrightarrow>
      getMethodKeyFor R method_name = spec_getMethodKeyFor R method_name) \<and>
   (take 1 method_name = ''_'' \<longrightarrow>
      getMethodKeyFor R method_name = (if method_name \<in> set R then method_name else '''')) \<and>
   ('''' \<in> set R \<longrightarrow>
      getMethodKeyFor R method_name = (if method_name \<in> set R then method_name else ''''))"
proof (intro conjI impI)
  assume a: "'''' \<notin> set R \<and> take 1 method_name \<noteq> ''_''"
  show "getMethodKeyFor R method_name = spec_getMethodKeyFor R method_name"
  proof (cases "method_name \<in> set R")
    case True
    then show ?thesis by (simp add: getMethodKeyFor_def spec_getMethodKeyFor_def)
  next
    case False
    show ?thesis
    proof (cases "0 < indexOf CHR ''_'' method_name")
      case True
      then have "CHR ''_'' \<in> set (drop 1 method_name)"
        using a underscore_after_0[of method_name] by blast
      with a \<open>method_name \<notin> set R\<close> True show ?thesis
        by (simp add: getMethodKeyFor_loop spec_getMethodKeyFor_def)
    next
      case False
      then have "CHR ''_'' \<notin> set (drop 1 method_name)"
        using a underscore_after_0[of method_name] by blast
      with a \<open>method_name \<notin> set R\<close> False show ?thesis
        by (simp add: getMethodKeyFor_def spec_getMethodKeyFor_def)
    qed
  qed
next
  assume "take 1 method_name = ''_''"
  then have "\<not> 0 < indexOf CHR ''_'' method_name" by (simp add: indexOf_pos_iff)
  then show "getMethodKeyFor R method_name = (if method_name \<in> set R then method_name else '''')"
    by (simp add: getMethodKeyFor_def)
next
  assume e: "'''' \<in> set R"
  have "accumulate R segs '''' = ''''" for segs using e by (cases segs) simp_all
  with e show "getMethodKeyFor R method_name = (if method_name \<in> set R then method_name else '''')"
    by (simp add: getMethodKeyFor_def)
qed

theorem getMethodKeyFor_resolution_witness:
  "'''' \<notin> set [''plugin_''] \<and> take 1 ''plugin_foo_bar'' \<noteq> ''_'' \<and>
   getMethodKeyFor [''plugin_''] ''plugin_foo_bar'' = spec_getMethodKeyFor [''plugin_''] ''plugin_foo_bar'' \<and>
   spec_getMethodKeyFor [''plugin_''] ''plugin_foo_bar'' = ''plugin_'' \<and>
   take 1 ''_a_b'' = ''_'' \<and> getMethodKeyFor [''_a_''] ''_a_b'' = '''' \<and>
   '''' \<in> set ['''', ''a_''] \<and> getMethodKeyFor ['''', ''a_''] ''a_b'' = ''''"
  using getMethodKeyFor_resolution[of "[''plugin_'']" "''plugin_foo_bar''"]
    getMethodKeyFor_resolution[of "[''_a_'']" "''_a_b''"]
    getMethodKeyFor_resolution[of "['''', ''a_'']" "''a_b''"]
  by (simp add: spec_getMethodKeyFor_def accumulated_def join_us_def)

section \<open>The method router and the executor\<close>

lemma executeMethod_not_Unauthorized: "executeMethod cfg domain req s \<noteq> End_error Unauthorized"
  by (simp add: executeMethod_def Let_def split: option.splits list.splits sum.splits)

lemma pushCaveats_registered:
  "list_all (\<lambda>c. caveat_type c \<in> set caveatFnGens) cs \<Longrightarrow> pushCaveats cs = Inr (map CaveatFn cs)"
  by (induction cs) simp_all

text \<open>
  C6: for every incoming request, \<open>providerMiddlewareFunction\<close> checks membership in
  \<open>safeMethods\<close> first and yields to \<open>next\<close> without any authorization (whatever the
  restricted methods and the domain's permissions are, so also for a name that is both
  safe and restricted); then the internal-method table, whose handlers run whatever
  the restricted methods and permissions are; and only then the restricted-method
  authorization: the permission lookup, whose exception is caught and ends the call
  with an error of code 1, the refusal as unauthorized when the lookup finds nothing,
  and the executor otherwise.
\<close>

theorem routing_priority:
  "(method_rpc req \<in> set (safeMethods cfg) \<longrightarrow>
      providerMiddlewareFunction env cfg domain req s = (Next, s)) \<and>
   (method_rpc req \<notin> set (safeMethods cfg) \<and>
    method_rpc req = methodPrefix cfg @ ''getPermissions'' \<longrightarrow>
      providerMiddlewareFunction env cfg domain req s = getPermissionsMiddleware domain s) \<and>
   (method_rpc req \<notin> set (safeMethods cfg) \<and>
    method_rpc req = methodPrefix cfg @ ''requestPermissions'' \<longrightarrow>
      providerMiddlewareFunction env cfg domain req s =
        requestPermissionsMiddleware env domain req s) \<and>
   (method_rpc req \<notin> set (safeMethods cfg) \<and> method_rpc req \<notin> set (internalMethods cfg) \<longrightarrow>
      providerMiddlewareFunction env cfg domain req s =
        (case getPermission (origin domain) (method_rpc req) s of
           Inl err \<Rightarrow> (End_error (Caught err), s)
         | Inr None \<Rightarrow> (End_error Unauthorized, s)
         | Inr (Some permission) \<Rightarrow> (executeMethod cfg domain req s, s)))"
  by (auto simp: providerMiddlewareFunction_def internalMethods_def Let_def)

theorem routing_priority_witness:
  "''eth_read'' \<in> set (safeMethods wallet_cfg) \<and>
   ''eth_read'' \<in> set (map fst (restrictedMethods wallet_cfg)) \<and>
   getPermission ''o1'' ''eth_read'' empty_state = Inr None \<and>
   providerMiddlewareFunction env0 wallet_cfg \<lparr>origin = ''o1'', id_meta = None\<rparr>
     \<lparr>method_rpc = ''eth_read'', params = Some []\<rparr> empty_state = (Next, empty_state) \<and>
   ''wallet_getPermissions'' \<notin> set (safeMethods wallet_cfg) \<and>
   ''wallet_getPermissions'' \<in> set (map fst (restrictedMethods wallet_cfg)) \<and>
   providerMiddlewareFunction env0 wallet_cfg \<lparr>origin = ''o1'', id_meta = None\<rparr>
     \<lparr>method_rpc = ''wallet_getPermissions'', params = Some []\<rparr> empty_state
     = (End_result (Some []), empty_state) \<and>
   ''wallet_requestPermissions'' \<notin> set (safeMethods wallet_cfg) \<and>
   providerMiddlewareFunction env0 wallet_cfg \<lparr>origin = ''o1'', id_meta = None\<rparr>
     \<lparr>method_rpc = ''wallet_requestPermissions'', params = None\<rparr> empty_state
     = (End_error InvalidReq, empty_state) \<and>
   ''readAccounts'' \<notin> set (safeMethods wallet_cfg) \<and>
   ''readAccounts'' \<notin> set (internalMethods wallet_cfg) \<and>
   providerMiddlewareFunction env0 wallet_cfg \<lparr>origin = ''o1'', id_meta = None\<rparr>
     \<lparr>method_rpc = ''readAccounts'', params = Some []\<rparr> empty_state
     = (End_error Unauthorized, empty_state) \<and>
   providerMiddlewareFunction env0 wallet_cfg \<lparr>origin = ''constructor'', id_meta = None\<rparr>
     \<lparr>method_rpc = ''readAccounts'', params = Some []\<rparr> empty_state
     = (End_error (Caught TypeError), empty_state) \<and>
   providerMiddlewareFunction env0 wallet_cfg \<lparr>origin = ''o1'', id_meta = None\<rparr>
     \<lparr>method_rpc = ''readAccounts'', params = Some []\<rparr> accounts_state
     = (Invoke ''accountsHandler'', accounts_state)"
  using
    routing_priority[of "\<lparr>method_rpc = ''eth_read'', params = Some ([] :: nat param list)\<rparr>"
       wallet_cfg env0 "\<lparr>origin = ''o1'', id_meta = None\<rparr>" empty_state]
    routing_priority[of
       "\<lparr>method_rpc = ''wallet_getPermissions'', params = Some ([] :: nat param list)\<rparr>"
       wallet_cfg env0 "\<lparr>origin = ''o1'', id_meta = None\<rparr>" empty_state]
    routing_priority[of
       "\<lparr>method_rpc = ''wallet_requestPermissions'', params = (None :: nat param list option)\<rparr>"
       wallet_cfg env0 "\<lparr>origin = ''o1'', id_meta = None\<rparr>" empty_state]
    routing_priority[of "\<lparr>method_rpc = ''readAccounts'', params = Some ([] :: nat param list)\<rparr>"
       wallet_cfg env0 "\<lparr>origin = ''o1'', id_meta = None\<rparr>" empty_state]
    routing_priority[of "\<lparr>method_rpc = ''readAccounts'', params = Some ([] :: nat param list)\<rparr>"
       wallet_cfg env0 "\<lparr>origin = ''constructor'', id_meta = None\<rparr>" empty_state]
    routing_priority[of "\<lparr>method_rpc = ''readAccounts'', params = Some ([] :: nat param list)\<rparr>"
       wallet_cfg env0 "\<lparr>origin = ''o1'', id_meta = None\<rparr>" accounts_state]
  by (simp add: wallet_cfg_def empty_state_def accounts_state_def oneDomain_def internalMethods_def
      getPermission_def getPermissionsForDomain_def getDomains_def getProperty_def emptyObject_def
      objectPrototype_def getPermissionsMiddleware_def requestPermissionsMiddleware_def
      finalizePermissionsRequest_def executeMethod_def restrictedTarget_def getMethodKeyFor_def
      Capability_def)

text \<open>
  C1, as the claim states it, fails: with the restricted key \<open>plugin_\<close>, the request
  \<open>plugin_foo_bar\<close> resolves to the method key \<open>plugin_\<close>, the domain holds a
  capability for \<open>plugin_\<close>, and the call is refused as unauthorized. The lookup
  \<open>getPermission(domain.origin, methodName)\<close> compares \<open>parentCapability\<close> with the
  request's own method name, in the router and again in the executor; the resolved key
  only selects the implementation.
\<close>

theorem namespaced_capability_counterexample:
  "getMethodKeyFor (map fst (restrictedMethods plugin_cfg)) ''plugin_foo_bar'' = ''plugin_'' \<and>
   getPermission ''o1'' ''plugin_'' plugin_state
     = Inr (Some (Capability env0 0 ''plugin_'' None ''o1'')) \<and>
   providerMiddlewareFunction env0 plugin_cfg \<lparr>origin = ''o1'', id_meta = None\<rparr>
     \<lparr>method_rpc = ''plugin_foo_bar'', params = Some []\<rparr> plugin_state
   = (End_error Unauthorized, plugin_state)"
  by (simp add: plugin_cfg_def plugin_state_def oneDomain_def getMethodKeyFor_def getPermission_def
      getPermissionsForDomain_def getDomains_def getProperty_def providerMiddlewareFunction_def
      internalMethods_def Capability_def)

text \<open>
  C1 (amended): for every incoming request that is neither safe nor internal, the
  authorization decision is made against the capability whose \<open>parentCapability\<close> is
  the request's own method name: unauthorized is returned exactly when the lookup
  \<open>getPermission(domain.origin, req.method)\<close> finds no capability of that name. When
  the lookup throws, the call ends with the caught error, of code 1. When the lookup
  finds a capability, the call ends with \<open>METHOD_NOT_FOUND\<close> if the method resolves to
  no method key with a callable implementation; otherwise it is dispatched to the
  implementation under the method key that \<open>getMethodKeyFor\<close> resolves (for
  \<open>plugin_foo_bar\<close>, the implementation of \<open>plugin_\<close>): called directly when the
  capability has no caveats or an empty caveat list, and run behind one caveat
  function per caveat when every caveat's type is registered.
\<close>

theorem authorization_by_request_method:
  "method_rpc req \<notin> set (safeMethods cfg) \<and> method_rpc req \<notin> set (internalMethods cfg) \<longrightarrow>
     (fst (providerMiddlewareFunction env cfg domain req s) = End_error Unauthorized
        \<longleftrightarrow> getPermission (origin domain) (method_rpc req) s = Inr None) \<and>
     (\<forall>err. getPermission (origin domain) (method_rpc req) s = Inl err \<longrightarrow>
        providerMiddlewareFunction env cfg domain req s = (End_error (Caught err), s)) \<and>
     (\<forall>p. getPermission (origin domain) (method_rpc req) s = Inr (Some p) \<longrightarrow>
        (restrictedTarget cfg (method_rpc req) = None \<longrightarrow>
           providerMiddlewareFunction env cfg domain req s = (End_error METHOD_NOT_FOUND, s)) \<and>
        (\<forall>target. restrictedTarget cfg (method_rpc req) = Some target \<longrightarrow>
           (caveats p = None \<or> caveats p = Some [] \<longrightarrow>
              providerMiddlewareFunction env cfg domain req s = (Invoke target, s)) \<and>
           (\<forall>cs. caveats p = Some cs \<and> cs \<noteq> [] \<and>
                 list_all (\<lambda>c. caveat_type c \<in> set caveatFnGens) cs \<longrightarrow>
              providerMiddlewareFunction env cfg domain req s = (Pipeline (map CaveatFn cs) target, s))))"
proof (intro impI)
  assume a: "method_rpc req \<notin> set (safeMethods cfg) \<and> method_rpc req \<notin> set (internalMethods cfg)"
  then have r: "providerMiddlewareFunction env cfg domain req s =
        (case getPermission (origin domain) (method_rpc req) s of
           Inl err \<Rightarrow> (End_error (Caught err), s)
         | Inr None \<Rightarrow> (End_error Unauthorized, s)
         | Inr (Some permission) \<Rightarrow> (executeMethod cfg domain req s, s))"
    by (simp add: providerMiddlewareFunction_def Let_def)
  have e: "executeMethod cfg domain req s =
      (case restrictedTarget cfg (method_rpc req) of
         None \<Rightarrow> End_error METHOD_NOT_FOUND
       | Some target \<Rightarrow>
           (case caveats p of
              None \<Rightarrow> Invoke target
            | Some [] \<Rightarrow> Invoke target
            | Some (c # cs) \<Rightarrow>
                (case pushCaveats (c # cs) of
                   Inl e \<Rightarrow> Throws e
                 | Inr stages \<Rightarrow> Pipeline stages target)))"
    if "getPermission (origin domain) (method_rpc req) s = Inr (Some p)" for p
    using that by (simp add: executeMethod_def split: option.splits)
  show "(fst (providerMiddlewareFunction env cfg domain req s) = End_error Unauthorized
        \<longleftrightarrow> getPermission (origin domain) (method_rpc req) s = Inr None) \<and>
     (\<forall>err. getPermission (origin domain) (method_rpc req) s = Inl err \<longrightarrow>
        providerMiddlewareFunction env cfg domain req s = (End_error (Caught err), s)) \<and>
     (\<forall>p. getPermission (origin domain) (method_rpc req) s = Inr (Some p) \<longrightarrow>
        (restrictedTarget cfg (method_rpc req) = None \<longrightarrow>
           providerMiddlewareFunction env cfg domain req s = (End_error METHOD_NOT_FOUND, s)) \<and>
        (\<forall>target. restrictedTarget cfg (method_rpc req) = Some target \<longrightarrow>
           (caveats p = None \<or> caveats p = Some [] \<longrightarrow>
              providerMiddlewareFunction env cfg domain req s = (Invoke target, s)) \<and>
           (\<forall>cs. caveats p = Some cs \<and> cs \<noteq> [] \<and>
                 list_all (\<lambda>c. caveat_type c \<in> set caveatFnGens) cs \<longrightarrow>
              providerMiddlewareFunction env cfg domain req s = (Pipeline (map CaveatFn cs) target, s))))"
  proof (intro conjI allI impI)
    show "fst (providerMiddlewareFunction env cfg domain req s) = End_error Unauthorized
        \<longleftrightarrow> getPermission (origin domain) (method_rpc req) s = Inr None"
      by (auto simp: r executeMethod_not_Unauthorized split: sum.splits option.splits)
  next
    fix err assume "getPermission (origin domain) (method_rpc req) s = Inl err"
    then show "providerMiddlewareFunction env cfg domain req s = (End_error (Caught err), s)"
      by (simp add: r)
  next
    fix p assume "getPermission (origin domain) (method_rpc req) s = Inr (Some p)"
      and "restrictedTarget cfg (method_rpc req) = None"
    then show "providerMiddlewareFunction env cfg domain req s = (End_error METHOD_NOT_FOUND, s)"
      by (simp add: r e)
  next
    fix p target
    assume "getPermission (origin domain) (method_rpc req) s = Inr (Some p)"
      and "restrictedTarget cfg (method_rpc req) = Some target"
      and "caveats p = None \<or> caveats p = Some []"
    then show "providerMiddlewareFunction env cfg domain req s = (Invoke target, s)"
      by (auto simp: r e)
  next
    fix p target cs
    assume g: "getPermission (origin domain) (method_rpc req) s = Inr (Some p)"
      and t: "restrictedTarget cfg (method_rpc req) = Some target"
      and c: "caveats p = Some cs \<and> cs \<noteq> [] \<and>
                 list_all (\<lambda>c. caveat_type c \<in> set caveatFnGens) cs"
    then have "pushCaveats cs = Inr (map CaveatFn cs)" by (simp add: pushCaveats_registered)
    with g t c show "providerMiddlewareFunction env cfg domain req s = (Pipeline (map CaveatFn cs) target, s)"
      by (cases cs) (simp_all add: r e)
  qed
qed

theorem authorization_by_request_method_witness:
  "method_rpc \<lparr>method_rpc = ''plugin_foo_bar'', params = Some ([] :: nat param list)\<rparr>
     \<notin> set (safeMethods plugin_cfg) \<and>
   method_rpc \<lparr>method_rpc = ''plugin_foo_bar'', params = Some ([] :: nat param list)\<rparr>
     \<notin> set (internalMethods plugin_cfg) \<and>
   getPermission ''o1'' ''plugin_foo_bar'' namespaced_state
     = Inr (Some (Capability env0 0 ''plugin_foo_bar'' None ''o1'')) \<and>
   getMethodKeyFor (map fst (restrictedMethods plugin_cfg)) ''plugin_foo_bar'' = ''plugin_'' \<and>
   restrictedTarget plugin_cfg ''plugin_foo_bar'' = Some ''pluginHandler'' \<and>
   providerMiddlewareFunction env0 plugin_cfg \<lparr>origin = ''o1'', id_meta = None\<rparr>
     \<lparr>method_rpc = ''plugin_foo_bar'', params = Some []\<rparr> namespaced_state
   = (Invoke ''pluginHandler'', namespaced_state) \<and>
   getPermission ''o1'' ''plugin_foo_bar'' plugin_state = Inr None \<and>
   fst (providerMiddlewareFunction env0 plugin_cfg \<lparr>origin = ''o1'', id_meta = None\<rparr>
     \<lparr>method_rpc = ''plugin_foo_bar'', params = Some []\<rparr> plugin_state) = End_error Unauthorized \<and>
   getPermission ''constructor'' ''plugin_foo_bar'' plugin_state = Inl TypeError \<and>
   providerMiddlewareFunction env0 plugin_cfg \<lparr>origin = ''constructor'', id_meta = None\<rparr>
     \<lparr>method_rpc = ''plugin_foo_bar'', params = Some []\<rparr> plugin_state
   = (End_error (Caught TypeError), plugin_state) \<and>
   getPermission ''o1'' ''broken'' (oneDomain ''o1'' [Capability env0 0 ''broken'' None ''o1''])
     = Inr (Some (Capability env0 0 ''broken'' None ''o1'')) \<and>
   restrictedTarget wallet_cfg ''broken'' = None \<and>
   providerMiddlewareFunction env0 wallet_cfg \<lparr>origin = ''o1'', id_meta = None\<rparr>
     \<lparr>method_rpc = ''broken'', params = Some []\<rparr>
     (oneDomain ''o1'' [Capability env0 0 ''broken'' None ''o1''])
   = (End_error METHOD_NOT_FOUND, oneDomain ''o1'' [Capability env0 0 ''broken'' None ''o1'']) \<and>
   restrictedTarget wallet_cfg ''readAccounts'' = Some ''accountsHandler'' \<and>
   providerMiddlewareFunction env0 wallet_cfg \<lparr>origin = ''o1'', id_meta = None\<rparr>
     \<lparr>method_rpc = ''readAccounts'', params = Some []\<rparr> known_caveat_state
   = (Pipeline [CaveatFn \<lparr>caveat_type = ''filterResponse'', caveat_value = 0\<rparr>]
      ''accountsHandler'',
      known_caveat_state)"
  using
    authorization_by_request_method[of
      "\<lparr>method_rpc = ''plugin_foo_bar'', params = Some ([] :: nat param list)\<rparr>" plugin_cfg
      env0 "\<lparr>origin = ''o1'', id_meta = None\<rparr>" namespaced_state]
    authorization_by_request_method[of
      "\<lparr>method_rpc = ''plugin_foo_bar'', params = Some ([] :: nat param list)\<rparr>" plugin_cfg
      env0 "\<lparr>origin = ''o1'', id_meta = None\<rparr>" plugin_state]
    authorization_by_request_method[of
      "\<lparr>method_rpc = ''plugin_foo_bar'', params = Some ([] :: nat param list)\<rparr>" plugin_cfg
      env0 "\<lparr>origin = ''constructor'', id_meta = None\<rparr>" plugin_state]
    authorization_by_request_method[of
      "\<lparr>method_rpc = ''broken'', params = Some ([] :: nat param list)\<rparr>" wallet_cfg
      env0 "\<lparr>origin = ''o1'', id_meta = None\<rparr>"
      "oneDomain ''o1'' [Capability env0 0 ''broken'' None ''o1'']"]
    authorization_by_request_method[of
      "\<lparr>method_rpc = ''readAccounts'', params = Some ([] :: nat param list)\<rparr>" wallet_cfg
      env0 "\<lparr>origin = ''o1'', id_meta = None\<rparr>" known_caveat_state]
  by (simp add: plugin_cfg_def wallet_cfg_def plugin_state_def namespaced_state_def
      known_caveat_state_def oneDomain_def getMethodKeyFor_def restrictedTarget_def
      getPermission_def getPermissionsForDomain_def getDomains_def getProperty_def
      objectPrototype_def internalMethods_def Capability_def caveatFnGens_def)

text \<open>
  C3 (the code at the failing input): the domain is authorized for \<open>readAccounts\<close> by
  a capability with one caveat of the unregistered type \<open>unknownCaveat\<close>. The call
  throws a \<open>TypeError\<close> out of the middleware: no \<open>invalid params\<close> error value is
  delivered. With a registered caveat type the same call builds the pipeline.
\<close>

theorem unknown_caveat_type_throws:
  "getPermission ''o1'' ''readAccounts'' unknown_caveat_state
     = Inr (Some (Capability env0 0 ''readAccounts''
          (Some [\<lparr>caveat_type = ''unknownCaveat'', caveat_value = 0\<rparr>]) ''o1'')) \<and>
   providerMiddlewareFunction env0 wallet_cfg \<lparr>origin = ''o1'', id_meta = None\<rparr>
     \<lparr>method_rpc = ''readAccounts'', params = Some []\<rparr> unknown_caveat_state
   = (Throws TypeError, unknown_caveat_state) \<and>
   providerMiddlewareFunction env0 wallet_cfg \<lparr>origin = ''o1'', id_meta = None\<rparr>
     \<lparr>method_rpc = ''readAccounts'', params = Some []\<rparr> known_caveat_state
   = (Pipeline [CaveatFn \<lparr>caveat_type = ''filterResponse'', caveat_value = 0\<rparr>]
      ''accountsHandler'',
      known_caveat_state)"
  by (simp add: wallet_cfg_def unknown_caveat_state_def known_caveat_state_def oneDomain_def
      providerMiddlewareFunction_def internalMethods_def getPermission_def
      getPermissionsForDomain_def getDomains_def getProperty_def executeMethod_def
      restrictedTarget_def getMethodKeyFor_def Capability_def caveatFnGens_def)

section \<open>The permission-request workflow\<close>

text \<open>
  C4 (the code at the failing input): a \<open>requestPermissions\<close> call whose first
  parameter is \<open>null\<close> throws a \<open>TypeError\<close> instead of ending with
  \<open>invalidReq(req)\<close>, because \<open>typeof null\<close> is \<open>'object'\<close> and \<open>Object.keys(null)\<close>
  throws. Missing parameters, an absent first element, a primitive, an array and an
  empty object all end with \<open>invalidReq(req)\<close> and leave the state alone.
\<close>

theorem requestPermissions_null_param_throws:
  "requestPermissionsMiddleware env0 \<lparr>origin = ''o1'', id_meta = None\<rparr>
     \<lparr>method_rpc = ''wallet_requestPermissions'', params = Some [PNull]\<rparr> empty_state
   = (Throws TypeError :: (nat, string) outcome, empty_state) \<and>
   requestPermissionsMiddleware env0 \<lparr>origin = ''o1'', id_meta = None\<rparr>
     \<lparr>method_rpc = ''wallet_requestPermissions'', params = None\<rparr> empty_state
   = (End_error InvalidReq :: (nat, string) outcome, empty_state) \<and>
   requestPermissionsMiddleware env0 \<lparr>origin = ''o1'', id_meta = None\<rparr>
     \<lparr>method_rpc = ''wallet_requestPermissions'', params = Some []\<rparr> empty_state
   = (End_error InvalidReq :: (nat, string) outcome, empty_state) \<and>
   requestPermissionsMiddleware env0 \<lparr>origin = ''o1'', id_meta = None\<rparr>
     \<lparr>method_rpc = ''wallet_requestPermissions'', params = Some [PPrimitive]\<rparr> empty_state
   = (End_error InvalidReq :: (nat, string) outcome, empty_state) \<and>
   requestPermissionsMiddleware env0 \<lparr>origin = ''o1'', id_meta = None\<rparr>
     \<lparr>method_rpc = ''wallet_requestPermissions'', params = Some [PArray]\<rparr> empty_state
   = (End_error InvalidReq :: (nat, string) outcome, empty_state) \<and>
   requestPermissionsMiddleware env0 \<lparr>origin = ''o1'', id_meta = None\<rparr>
     \<lparr>method_rpc = ''wallet_requestPermissions'', params = Some [PObject []]\<rparr> empty_state
   = (End_error InvalidReq :: (nat, string) outcome, empty_state)"
  by (simp add: requestPermissionsMiddleware_def finalizePermissionsRequest_def)

text \<open>
  One direction of C2 holds: caveat lists that are equal as multisets pass the length
  test and the inner loops.
\<close>

lemma multiset_equal_caveats_accepted:
  assumes "mset requestedCaveats = mset existingCaveats"
  shows "compareCaveats (Some requestedCaveats) (Some existingCaveats)"
proof -
  have "length requestedCaveats = length existingCaveats"
    using assms by (rule mset_eq_length)
  moreover have "set requestedCaveats = set existingCaveats"
    using assms by (rule mset_eq_setD)
  then have "eachRequestedHasEqual requestedCaveats existingCaveats"
    by (auto simp: eachRequestedHasEqual_def list_all_iff list_ex_iff caveatEqual_def)
  ultimately show ?thesis by (simp add: compareCaveats_def)
qed

text \<open>
  C2 (the code at the failing input): the domain holds \<open>readAccounts\<close> with the
  caveats \<open>[A, B]\<close>, the request asks for \<open>readAccounts\<close> with the caveats \<open>[A, A]\<close>.
  Both lists are in canonical order and have length 2, they differ as multisets, and
  \<open>hasPermissions\<close> returns true: the inner loops only look for some equal existing
  caveat for each requested one.
\<close>

theorem hasPermissions_duplicate_caveats:
  "hasPermissions ''o1''
     [(''readAccounts'', Some [\<lparr>caveat_type = ''filterResponse'', caveat_value = 1\<rparr>,
                               \<lparr>caveat_type = ''filterResponse'', caveat_value = 1\<rparr>])]
     two_caveat_state = Inr True \<and>
   mset [\<lparr>caveat_type = ''filterResponse'', caveat_value = (1::nat)\<rparr>,
         \<lparr>caveat_type = ''filterResponse'', caveat_value = 1\<rparr>]
     \<noteq> mset [\<lparr>caveat_type = ''filterResponse'', caveat_value = 1\<rparr>,
              \<lparr>caveat_type = ''filterResponse'', caveat_value = 2\<rparr>] \<and>
   sortCaveats [\<lparr>caveat_type = ''filterResponse'', caveat_value = (1::nat)\<rparr>,
                \<lparr>caveat_type = ''filterResponse'', caveat_value = 1\<rparr>]
     = [\<lparr>caveat_type = ''filterResponse'', caveat_value = 1\<rparr>,
        \<lparr>caveat_type = ''filterResponse'', caveat_value = 1\<rparr>] \<and>
   sortCaveats [\<lparr>caveat_type = ''filterResponse'', caveat_value = (1::nat)\<rparr>,
                \<lparr>caveat_type = ''filterResponse'', caveat_value = 2\<rparr>]
     = [\<lparr>caveat_type = ''filterResponse'', caveat_value = 1\<rparr>,
        \<lparr>caveat_type = ''filterResponse'', caveat_value = 2\<rparr>]"
  by (simp add: hasPermissions_def two_caveat_state_def oneDomain_def existingByMethod_def
      assignIndex_def existingProperty_def objectPrototype_def Let_def compareCaveats_def getPermissionsForDomain_def getDomains_def
      getProperty_def Capability_def eachRequestedHasEqual_def caveatEqual_def sortCaveats_def)

section \<open>The permission store\<close>

lemma getProperty_setProperty: "getProperty (setProperty obj k a) k = Entry a"
  by (simp add: getProperty_def setProperty_def)

lemma own_props_setProperty_other:
  "k' \<noteq> k \<Longrightarrow> own_props (setProperty obj k a) k' = own_props obj k'"
  by (simp add: setProperty_def)

lemma own_props_setProperty_same:
  "own_props (setProperty obj k a) k =
     (if k = ''__proto__'' \<and> own_props obj k = None then None else Some a)"
  by (auto simp: setProperty_def)

lemma own_props_deleteProperty:
  "own_props (deleteProperty obj k) = (own_props obj)(k := None)"
  by (simp add: deleteProperty_def)

lemma getDomains_setDomain:
  "getDomains (setDomain domain a s) =
     (if permissions (entries s a) \<noteq> [] then setProperty (getDomains s) domain a
      else deleteProperty (getDomains s) domain)"
  by (simp add: setDomain_def setDomains_def getDomains_def Let_def)

lemma entries_setDomain [simp]: "entries (setDomain domain a s) = entries s"
  by (simp add: setDomain_def setDomains_def Let_def)

lemma allocated_setDomain [simp]: "allocated (setDomain domain a s) = allocated s"
  by (simp add: setDomain_def setDomains_def Let_def)

lemma getDomains_entries_update [simp]: "getDomains (s\<lparr>entries := h\<rparr>) = getDomains s"
  by (simp add: getDomains_def)

lemma getDomains_uuidCalls_update [simp]: "getDomains (s\<lparr>uuidCalls := n\<rparr>) = getDomains s"
  by (simp add: getDomains_def)

lemma getDomains_allocated_update [simp]: "getDomains (s\<lparr>allocated := n\<rparr>) = getDomains s"
  by (simp add: getDomains_def)

text \<open>What \<open>getDomainSettings\<close> returns and leaves behind.\<close>

lemma getDomainSettings_fst:
  "fst (getDomainSettings domain s) =
     (case own_props (getDomains s) domain of Some a \<Rightarrow> a | None \<Rightarrow> allocated s)"
  by (simp add: getDomainSettings_def Let_def split: option.splits)

lemma getDomainSettings_permissions:
  "permissions (entries (snd (getDomainSettings domain s)) (fst (getDomainSettings domain s)))
     = ownPermissions domain s"
  by (simp add: getDomainSettings_def ownPermissions_def Let_def split: option.splits)

lemma getDomainSettings_uuidCalls:
  "uuidCalls (snd (getDomainSettings domain s)) = uuidCalls s"
  by (simp add: getDomainSettings_def Let_def split: option.splits)

lemma getDomainSettings_own_other:
  "d \<noteq> domain \<Longrightarrow>
   own_props (getDomains (snd (getDomainSettings domain s))) d = own_props (getDomains s) d"
  by (simp add: getDomainSettings_def getDomains_def Let_def own_props_setProperty_other
      split: option.splits)

lemma getDomainSettings_entries:
  "entries (snd (getDomainSettings domain s)) =
     (case own_props (getDomains s) domain of
        Some a \<Rightarrow> entries s
      | None \<Rightarrow> (entries s)(allocated s := \<lparr>permissions = []\<rparr>))"
  by (simp add: getDomainSettings_def Let_def split: option.splits)

lemma getDomainSettings_allocated:
  "allocated (snd (getDomainSettings domain s)) =
     (case own_props (getDomains s) domain of Some a \<Rightarrow> allocated s | None \<Rightarrow> Suc (allocated s))"
  by (simp add: getDomainSettings_def Let_def split: option.splits)

lemma addPermissionsFor_unfold:
  "addPermissionsFor env domainName newPermissions s =
     setDomain domainName (fst (getDomainSettings domainName s))
       ((snd (getDomainSettings domainName s))
          \<lparr>entries := (entries (snd (getDomainSettings domainName s)))
             (fst (getDomainSettings domainName s) :=
                \<lparr>permissions =
                   filter (\<lambda>oldPerm. parentCapability oldPerm \<notin> fst ` set newPermissions)
                     (ownPermissions domainName s) @
                   map (\<lambda>(i, methodName, newPerm).
                          Capability env (uuidCalls s + i) (parentCapability newPerm)
                            (caveats newPerm) domainName)
                     (enumerate 0 newPermissions)\<rparr>),
            uuidCalls := uuidCalls s + length newPermissions\<rparr>)"
proof -
  obtain a s1 where g: "getDomainSettings domainName s = (a, s1)"
    by (cases "getDomainSettings domainName s")
  have p: "permissions (entries s1 a) = ownPermissions domainName s"
    using getDomainSettings_permissions[of domainName s] g by simp
  have u: "uuidCalls s1 = uuidCalls s"
    using getDomainSettings_uuidCalls[of domainName s] g by simp
  show ?thesis
    by (simp add: addPermissionsFor_def getOrCreateDomainSettings_def g p u Let_def)
qed

lemma removePermissionsFor_unfold:
  "removePermissionsFor domainName permissionsToRemove s =
     setDomain domainName (fst (getDomainSettings domainName s))
       ((snd (getDomainSettings domainName s))
          \<lparr>entries := (entries (snd (getDomainSettings domainName s)))
             (fst (getDomainSettings domainName s) :=
                \<lparr>permissions =
                   filter (\<lambda>perm. parentCapability perm \<notin> parentCapability ` set permissionsToRemove)
                     (ownPermissions domainName s)\<rparr>)\<rparr>)"
proof -
  obtain a s1 where g: "getDomainSettings domainName s = (a, s1)"
    by (cases "getDomainSettings domainName s")
  have p: "permissions (entries s1 a) = ownPermissions domainName s"
    using getDomainSettings_permissions[of domainName s] g by simp
  have f: "(\<lambda>perm. \<not> list_ex (\<lambda>r. parentCapability r = parentCapability perm) permissionsToRemove)
      = (\<lambda>perm. parentCapability perm \<notin> parentCapability ` set permissionsToRemove)"
    by (rule ext) (simp add: list_ex_iff image_iff, metis)
  show ?thesis
    by (simp add: removePermissionsFor_def g p f Let_def)
qed

text \<open>What an assignment into the entry object of a domain leaves behind.\<close>

lemma assignInto_own_other:
  "d \<noteq> domain \<Longrightarrow> own_props (getDomains (assignInto domain perms s)) d = own_props (getDomains s) d"
  by (simp add: assignInto_def getDomains_setDomain own_props_setProperty_other
      own_props_deleteProperty getDomainSettings_own_other)

lemma getDomainSettings_own_same:
  "own_props (getDomains (snd (getDomainSettings domain s))) domain =
     (case own_props (getDomains s) domain of
        Some a \<Rightarrow> Some a
      | None \<Rightarrow> (case domains s of
                  None \<Rightarrow> None
                | Some ds \<Rightarrow> if domain = ''__proto__'' then None else Some (allocated s)))"
  by (simp add: getDomainSettings_def getDomains_def Let_def setProperty_def split: option.splits)


lemma assignInto_own_same:
  "own_props (getDomains (assignInto domain perms s)) domain =
     (if perms = [] then None
      else if domain = ''__proto__'' \<and> own_props (getDomains s) domain = None then None
      else Some (fst (getDomainSettings domain s)))"
proof (cases "perms = []")
  case True
  then show ?thesis
    by (simp add: assignInto_def getDomains_setDomain own_props_deleteProperty)
next
  case False
  have "own_props (getDomains (assignInto domain perms s)) domain =
      (if domain = ''__proto__'' \<and>
          own_props (getDomains (snd (getDomainSettings domain s))) domain = None
       then None else Some (fst (getDomainSettings domain s)))"
    using False
    by (simp add: assignInto_def getDomains_setDomain own_props_setProperty_same)
  also have "\<dots> = (if domain = ''__proto__'' \<and> own_props (getDomains s) domain = None
       then None else Some (fst (getDomainSettings domain s)))"
    by (simp add: getDomainSettings_own_same split: option.splits)
  finally show ?thesis using False by simp
qed

lemma assignInto_getProperty:
  "perms \<noteq> [] \<Longrightarrow>
   getProperty (getDomains (assignInto domain perms s)) domain = Entry (fst (getDomainSettings domain s))"
  by (simp add: assignInto_def getDomains_setDomain getProperty_setProperty)

lemma assignInto_entries:
  "entries (assignInto domain perms s) =
     (entries s)(fst (getDomainSettings domain s) := \<lparr>permissions = perms\<rparr>)"
  by (simp add: assignInto_def getDomainSettings_entries getDomainSettings_fst split: option.splits)

lemma assignInto_allocated:
  "allocated (assignInto domain perms s) =
     (case own_props (getDomains s) domain of Some a \<Rightarrow> allocated s | None \<Rightarrow> Suc (allocated s))"
  by (simp add: assignInto_def getDomainSettings_allocated)

lemma setDomain_uuidCalls_update:
  "setDomain domain a (s\<lparr>uuidCalls := n\<rparr>) = (setDomain domain a s)\<lparr>uuidCalls := n\<rparr>"
  by (simp add: setDomain_def setDomains_def Let_def)

lemma addPermissionsFor_assignInto:
  "addPermissionsFor env domainName newPermissions s =
     (assignInto domainName
        (filter (\<lambda>oldPerm. parentCapability oldPerm \<notin> fst ` set newPermissions)
           (ownPermissions domainName s) @
         map (\<lambda>(i, methodName, newPerm).
                Capability env (uuidCalls s + i) (parentCapability newPerm)
                  (caveats newPerm) domainName)
           (enumerate 0 newPermissions)) s)
     \<lparr>uuidCalls := uuidCalls s + length newPermissions\<rparr>"
  by (simp add: addPermissionsFor_unfold assignInto_def setDomain_uuidCalls_update)

lemma removePermissionsFor_assignInto:
  "removePermissionsFor domainName permissionsToRemove s =
     assignInto domainName
       (filter (\<lambda>perm. parentCapability perm \<notin> parentCapability ` set permissionsToRemove)
          (ownPermissions domainName s)) s"
  by (simp add: removePermissionsFor_unfold assignInto_def)

lemma getPermissionsForDomain_uuidCalls_update [simp]:
  "getPermissionsForDomain domain (s\<lparr>uuidCalls := n\<rparr>) = getPermissionsForDomain domain s"
  by (simp add: getPermissionsForDomain_def split: property.splits)

lemma getPermissionsForDomain_assignInto:
  "perms \<noteq> [] \<Longrightarrow> getPermissionsForDomain domain (assignInto domain perms s) = Some perms"
  by (simp add: getPermissionsForDomain_def assignInto_getProperty assignInto_entries)

text \<open>
  Except for \<open>__proto__\<close>, what \<open>getPermissionsForDomain\<close> returns for a domain is the
  list of the entry under the domain's own key.
\<close>

lemma getPermissionsForDomain_ownPermissions:
  "domain \<noteq> ''__proto__'' \<Longrightarrow> getPermissionsForDomain domain s = Some perms \<Longrightarrow>
   ownPermissions domain s = perms"
  by (auto simp: getPermissionsForDomain_def ownPermissions_def getProperty_def
      split: option.splits if_splits)

lemma storeInvariant_uuidCalls_update [simp]:
  "storeInvariant (s\<lparr>uuidCalls := n\<rparr>) = storeInvariant s"
  by (simp add: storeInvariant_def noEmptyDomainEntry_def noSharedEntry_def entriesAllocated_def)

lemma storeInvariant_assignInto:
  assumes inv: "storeInvariant s"
  shows "storeInvariant (assignInto domain perms s)"
proof -
  let ?a = "fst (getDomainSettings domain s)"
  let ?t = "assignInto domain perms s"
  from inv have ne: "\<And>d a. own_props (getDomains s) d = Some a \<Longrightarrow> permissions (entries s a) \<noteq> []"
    and sh: "\<And>d d' a. own_props (getDomains s) d = Some a \<Longrightarrow>
                own_props (getDomains s) d' = Some a \<Longrightarrow> d = d'"
    and al: "\<And>d a. own_props (getDomains s) d = Some a \<Longrightarrow> a < allocated s"
    by (auto simp: storeInvariant_def noEmptyDomainEntry_def noSharedEntry_def entriesAllocated_def)
  have other: "a \<noteq> ?a" if "d \<noteq> domain" "own_props (getDomains s) d = Some a" for d a
  proof (cases "own_props (getDomains s) domain")
    case None
    with al[OF that(2)] show ?thesis by (simp add: getDomainSettings_fst)
  next
    case (Some b)
    with sh[OF that(2), of domain] that(1) show ?thesis by (auto simp: getDomainSettings_fst)
  qed
  have same: "a = ?a \<and> perms \<noteq> []" if "own_props (getDomains ?t) domain = Some a" for a
    using that by (auto simp: assignInto_own_same split: if_splits)
  have bound: "?a < allocated ?t"
    by (auto simp: getDomainSettings_fst assignInto_allocated dest: al split: option.splits)
  have mono: "allocated s \<le> allocated ?t"
    by (simp add: assignInto_allocated split: option.splits)
  have "noEmptyDomainEntry ?t"
    unfolding noEmptyDomainEntry_def
  proof (intro allI impI)
    fix d a assume o: "own_props (getDomains ?t) d = Some a"
    show "permissions (entries ?t a) \<noteq> []"
    proof (cases "d = domain")
      case True
      with o same show ?thesis by (simp add: assignInto_entries)
    next
      case False
      with o have o': "own_props (getDomains s) d = Some a" by (simp add: assignInto_own_other)
      with False other have "a \<noteq> ?a" by blast
      with ne[OF o'] show ?thesis by (simp add: assignInto_entries)
    qed
  qed
  moreover have "noSharedEntry ?t"
    unfolding noSharedEntry_def
  proof (intro allI impI)
    fix d d' a
    assume o: "own_props (getDomains ?t) d = Some a \<and> own_props (getDomains ?t) d' = Some a"
    show "d = d'"
    proof (cases "d = domain"; cases "d' = domain")
      assume "d = domain" "d' = domain" then show ?thesis by simp
    next
      assume d: "d = domain" "d' \<noteq> domain"
      with o have "a = ?a" "own_props (getDomains s) d' = Some a"
        using same by (auto simp: assignInto_own_other)
      with d other show ?thesis by blast
    next
      assume d: "d \<noteq> domain" "d' = domain"
      with o have "a = ?a" "own_props (getDomains s) d = Some a"
        using same by (auto simp: assignInto_own_other)
      with d other show ?thesis by blast
    next
      assume "d \<noteq> domain" "d' \<noteq> domain"
      with o sh show ?thesis by (auto simp: assignInto_own_other)
    qed
  qed
  moreover have "entriesAllocated ?t"
    unfolding entriesAllocated_def
  proof (intro allI impI)
    fix d a assume o: "own_props (getDomains ?t) d = Some a"
    show "a < allocated ?t"
    proof (cases "d = domain")
      case True
      with o same bound show ?thesis by auto
    next
      case False
      with o have "own_props (getDomains s) d = Some a" by (simp add: assignInto_own_other)
      with al mono show ?thesis by fastforce
    qed
  qed
  ultimately show ?thesis by (simp add: storeInvariant_def)
qed

lemma storeInvariant_setDomain:
  assumes inv: "storeInvariant s"
    and e: "e < allocated s" "\<And>d. own_props (getDomains s) d = Some e \<Longrightarrow> d = domain"
  shows "storeInvariant (setDomain domain e s)"
proof -
  from inv have ne: "\<And>d a. own_props (getDomains s) d = Some a \<Longrightarrow> permissions (entries s a) \<noteq> []"
    and sh: "\<And>d d' a. own_props (getDomains s) d = Some a \<Longrightarrow>
                own_props (getDomains s) d' = Some a \<Longrightarrow> d = d'"
    and al: "\<And>d a. own_props (getDomains s) d = Some a \<Longrightarrow> a < allocated s"
    by (auto simp: storeInvariant_def noEmptyDomainEntry_def noSharedEntry_def entriesAllocated_def)
  have own: "own_props (getDomains (setDomain domain e s)) d = Some a \<Longrightarrow>
      (d = domain \<and> a = e \<and> permissions (entries s e) \<noteq> []) \<or>
      (d \<noteq> domain \<and> own_props (getDomains s) d = Some a)" for d a
    by (auto simp: getDomains_setDomain setProperty_def deleteProperty_def split: if_splits)
  show ?thesis
    unfolding storeInvariant_def noEmptyDomainEntry_def noSharedEntry_def entriesAllocated_def
  proof (intro conjI allI impI)
    fix d a assume "own_props (getDomains (setDomain domain e s)) d = Some a"
    from own[OF this] ne show "permissions (entries (setDomain domain e s) a) \<noteq> []" by auto
  next
    fix d d' a
    assume "own_props (getDomains (setDomain domain e s)) d = Some a \<and>
            own_props (getDomains (setDomain domain e s)) d' = Some a"
    then have "((d = domain \<and> a = e) \<or> (d \<noteq> domain \<and> own_props (getDomains s) d = Some a)) \<and>
               ((d' = domain \<and> a = e) \<or> (d' \<noteq> domain \<and> own_props (getDomains s) d' = Some a))"
      using own[of d a] own[of d' a] by blast
    then show "d = d'" using sh e(2) by blast
  next
    fix d a assume "own_props (getDomains (setDomain domain e s)) d = Some a"
    from own[OF this] al e(1) show "a < allocated (setDomain domain e s)" by auto
  qed
qed

lemma map_enumerate_cong:
  assumes "length xs = length ys"
    and "\<And>i. i < length xs \<Longrightarrow> f (i, xs ! i) = g (i, ys ! i)"
  shows "map f (enumerate 0 xs) = map g (enumerate 0 ys)"
  using assms by (intro nth_equalityI) (simp_all add: nth_enumerate_eq)

text \<open>
  C9, as the claim states it, fails, in two ways. First, \<open>setDomain\<close> stores the
  caller's entry object, so one object can stand under two keys: with the same
  non-empty entry stored by \<open>setDomain\<close> under \<open>a\<close> and under \<open>b\<close>, no key maps to an
  empty entry, and \<open>removePermissionsFor('a', [cap])\<close> empties the shared object,
  deletes the key \<open>a\<close> and leaves \<open>b\<close> mapped to an entry with an empty permission
  list. Second, \<open>getDomainSettings\<close> writes an empty entry for an unknown domain into
  the registry without going through \<open>setDomain\<close>: after
  \<open>getDomainSettings('o2')\<close> the key \<open>o2\<close> maps to an empty entry, and a store
  operation on another domain leaves it there.
\<close>

theorem shared_entry_counterexample:
  "shared_state =
     setDomain ''b'' 0 (setDomain ''a'' 0
       (snd (newEntry [Capability env0 0 ''readAccounts'' None ''a''] empty_state))) \<and>
   noEmptyDomainEntry shared_state \<and>
   own_props (getDomains
     (removePermissionsFor ''a'' [Capability env0 0 ''readAccounts'' None ''a''] shared_state)) ''a''
     = None \<and>
   own_props (getDomains
     (removePermissionsFor ''a'' [Capability env0 0 ''readAccounts'' None ''a''] shared_state)) ''b''
     = Some 0 \<and>
   permissions (entries
     (removePermissionsFor ''a'' [Capability env0 0 ''readAccounts'' None ''a''] shared_state) 0)
     = [] \<and>
   \<not> noEmptyDomainEntry
     (removePermissionsFor ''a'' [Capability env0 0 ''readAccounts'' None ''a''] shared_state) \<and>
   noEmptyDomainEntry accounts_state \<and>
   own_props (getDomains
     (addPermissionsFor env0 ''o1'' [] (snd (getDomainSettings ''o2'' accounts_state)))) ''o2''
     = Some 1 \<and>
   permissions (entries
     (addPermissionsFor env0 ''o1'' [] (snd (getDomainSettings ''o2'' accounts_state))) 1) = [] \<and>
   \<not> noEmptyDomainEntry
     (addPermissionsFor env0 ''o1'' [] (snd (getDomainSettings ''o2'' accounts_state)))"
proof -
  let ?c = "Capability env0 0 ''readAccounts'' None ''a'' :: nat IOcapLdCapability"
  let ?r = "removePermissionsFor ''a'' [?c] shared_state"
  let ?g = "addPermissionsFor env0 ''o1'' [] (snd (getDomainSettings ''o2'' accounts_state))"
  have 1: "shared_state = setDomain ''b'' 0 (setDomain ''a'' 0 (snd (newEntry [?c] empty_state)))"
    by (simp add: shared_state_def setDomain_def setDomains_def getDomains_def newEntry_def
        empty_state_def setProperty_def emptyObject_def)
  have 2: "noEmptyDomainEntry shared_state"
    by (simp add: noEmptyDomainEntry_def shared_state_def getDomains_def)
  have 3: "own_props (getDomains ?r) ''a'' = None"
    and 4: "own_props (getDomains ?r) ''b'' = Some 0"
    and 5: "permissions (entries ?r 0) = []"
    by (simp_all add: removePermissionsFor_def getDomainSettings_def setDomain_def setDomains_def
        getDomains_def shared_state_def deleteProperty_def Capability_def)
  from 4 5 have 6: "\<not> noEmptyDomainEntry ?r"
    unfolding noEmptyDomainEntry_def by blast
  have 7: "noEmptyDomainEntry accounts_state"
    by (simp add: noEmptyDomainEntry_def accounts_state_def oneDomain_def getDomains_def)
  have 9: "own_props (getDomains ?g) ''o2'' = Some 1"
    and 10: "permissions (entries ?g 1) = []"
    by (simp_all add: addPermissionsFor_def getOrCreateDomainSettings_def getDomainSettings_def
        setDomain_def setDomains_def getDomains_def accounts_state_def oneDomain_def
        setProperty_def deleteProperty_def Capability_def)
  from 9 10 have 11: "\<not> noEmptyDomainEntry ?g"
    unfolding noEmptyDomainEntry_def by blast
  from 1 2 3 4 5 6 7 9 10 11 show ?thesis by blast
qed

text \<open>
  C9 (amended): \<open>setDomain\<close> stores the entry under the domain key when its permission
  list is non-empty and deletes the domain's own key when the list is empty, and
  removing all the capabilities that a domain holds makes its key absent from
  \<open>getDomains()\<close>. In a registry where no key maps to an entry with an empty
  permission list, no entry object is stored under two keys, and the stored objects
  are among those created so far (the registry that is absent at the start is one),
  the same holds after \<open>addPermissionsFor\<close>, after \<open>removePermissionsFor\<close>, after
  \<open>clearDomains\<close>, and after \<open>setDomain\<close> with an existing entry object that is not
  stored under another key.
\<close>

theorem no_empty_domain_entries:
  "storeInvariant \<lparr>domains = None, entries = h, allocated = n, permissionsRequests = reqs,
      uuidCalls = u\<rparr> \<and>
   (storeInvariant s \<longrightarrow>
      storeInvariant (addPermissionsFor env domain newPermissions s) \<and>
      storeInvariant (removePermissionsFor domain permissionsToRemove s) \<and>
      storeInvariant (clearDomains s) \<and>
      (e < allocated s \<and> (\<forall>d. own_props (getDomains s) d = Some e \<longrightarrow> d = domain) \<longrightarrow>
         storeInvariant (setDomain domain e s))) \<and>
   (permissions (entries s e) \<noteq> [] \<longrightarrow>
      getProperty (getDomains (setDomain domain e s)) domain = Entry e) \<and>
   (permissions (entries s e) = [] \<longrightarrow>
      own_props (getDomains (setDomain domain e s)) domain = None) \<and>
   (parentCapability ` set (ownPermissions domain s)
      \<subseteq> parentCapability ` set permissionsToRemove \<longrightarrow>
      own_props (getDomains (removePermissionsFor domain permissionsToRemove s)) domain = None)"
proof (intro conjI impI)
  show "storeInvariant \<lparr>domains = None, entries = h, allocated = n, permissionsRequests = reqs,
      uuidCalls = u\<rparr>"
    by (simp add: storeInvariant_def noEmptyDomainEntry_def noSharedEntry_def entriesAllocated_def
        getDomains_def emptyObject_def)
next
  assume "storeInvariant s"
  then show "storeInvariant (addPermissionsFor env domain newPermissions s)"
    by (simp add: addPermissionsFor_assignInto storeInvariant_assignInto)
next
  assume "storeInvariant s"
  then show "storeInvariant (removePermissionsFor domain permissionsToRemove s)"
    by (simp add: removePermissionsFor_assignInto storeInvariant_assignInto)
next
  show "storeInvariant (clearDomains s)"
    by (simp add: storeInvariant_def noEmptyDomainEntry_def noSharedEntry_def entriesAllocated_def
        clearDomains_def setDomains_def getDomains_def emptyObject_def)
next
  assume "storeInvariant s"
    and "e < allocated s \<and> (\<forall>d. own_props (getDomains s) d = Some e \<longrightarrow> d = domain)"
  then show "storeInvariant (setDomain domain e s)"
    by (intro storeInvariant_setDomain) auto
next
  assume "permissions (entries s e) \<noteq> []"
  then show "getProperty (getDomains (setDomain domain e s)) domain = Entry e"
    by (simp add: getDomains_setDomain getProperty_setProperty)
next
  assume "permissions (entries s e) = []"
  then show "own_props (getDomains (setDomain domain e s)) domain = None"
    by (simp add: getDomains_setDomain own_props_deleteProperty)
next
  assume "parentCapability ` set (ownPermissions domain s)
      \<subseteq> parentCapability ` set permissionsToRemove"
  then have "filter (\<lambda>perm. parentCapability perm \<notin> parentCapability ` set permissionsToRemove)
            (ownPermissions domain s) = []"
    by (auto simp: filter_empty_conv)
  then show "own_props (getDomains (removePermissionsFor domain permissionsToRemove s)) domain = None"
    by (simp add: removePermissionsFor_assignInto assignInto_own_same)
qed

theorem no_empty_domain_entries_witness:
  "storeInvariant accounts_state \<and>
   storeInvariant
     (addPermissionsFor env0 ''o1'' [(''readContacts'', Capability env0 7 ''readContacts'' None ''x'')]
        accounts_state) \<and>
   storeInvariant
     (removePermissionsFor ''o1'' [Capability env0 0 ''readAccounts'' None ''o1''] accounts_state) \<and>
   own_props (getDomains
     (removePermissionsFor ''o1'' [Capability env0 0 ''readAccounts'' None ''o1''] accounts_state))
     ''o1'' = None \<and>
   storeInvariant (clearDomains accounts_state) \<and>
   storeInvariant (snd (newEntry [Capability env0 5 ''readAccounts'' None ''o2''] accounts_state)) \<and>
   storeInvariant
     (setDomain ''o2'' 1
        (snd (newEntry [Capability env0 5 ''readAccounts'' None ''o2''] accounts_state))) \<and>
   getProperty (getDomains
     (setDomain ''o2'' 1
        (snd (newEntry [Capability env0 5 ''readAccounts'' None ''o2''] accounts_state)))) ''o2''
     = Entry 1 \<and>
   own_props (getDomains (setDomain ''o1'' 1 accounts_state)) ''o1'' = None"
proof -
  let ?c = "Capability env0 0 ''readAccounts'' None ''o1'' :: nat IOcapLdCapability"
  let ?n = "snd (newEntry [Capability env0 5 ''readAccounts'' None ''o2''] accounts_state)"
  have i1: "storeInvariant accounts_state"
    by (simp add: storeInvariant_def noEmptyDomainEntry_def noSharedEntry_def entriesAllocated_def
        accounts_state_def oneDomain_def getDomains_def)
  have i2: "storeInvariant ?n"
    by (simp add: storeInvariant_def noEmptyDomainEntry_def noSharedEntry_def entriesAllocated_def
        accounts_state_def oneDomain_def getDomains_def newEntry_def)
  have e: "1 < allocated ?n \<and> (\<forall>d. own_props (getDomains ?n) d = Some 1 \<longrightarrow> d = ''o2'')"
    by (simp add: accounts_state_def oneDomain_def getDomains_def newEntry_def)
  have p: "permissions (entries ?n 1) \<noteq> []" "permissions (entries accounts_state 1) = []"
    by (simp_all add: accounts_state_def oneDomain_def newEntry_def)
  have sub: "parentCapability ` set (ownPermissions ''o1'' accounts_state)
      \<subseteq> parentCapability ` set [?c]"
    by (simp add: accounts_state_def oneDomain_def ownPermissions_def getDomains_def)
  show ?thesis
    using i1 i2 e p sub
      no_empty_domain_entries[of "entries accounts_state" 0 None 0 accounts_state env0 "''o1''"
         "[(''readContacts'', Capability env0 7 ''readContacts'' None ''x'')]" "[?c]" 1]
      no_empty_domain_entries[of "entries accounts_state" 0 None 0 ?n env0 "''o2''" "[]" "[]" 1]
    by blast
qed

lemma prototype_setDomain:
  "domain \<noteq> ''__proto__'' \<Longrightarrow>
   prototype (getDomains (setDomain domain a s)) = prototype (getDomains s)"
  by (simp add: getDomains_setDomain setProperty_def deleteProperty_def)

lemma prototype_getDomainSettings:
  "domain \<noteq> ''__proto__'' \<Longrightarrow>
   prototype (getDomains (snd (getDomainSettings domain s))) = prototype (getDomains s)"
  by (simp add: getDomainSettings_def getDomains_def setProperty_def emptyObject_def Let_def
      split: option.splits)

lemma assignInto_prototype:
  "domain \<noteq> ''__proto__'' \<Longrightarrow>
   prototype (getDomains (assignInto domain perms s)) = prototype (getDomains s)"
  by (simp add: assignInto_def prototype_setDomain prototype_getDomainSettings)

text \<open>
  When the assigned list is empty the key is deleted, and the lookup finds nothing
  unless the name is inherited.
\<close>

lemma getPermissionsForDomain_assignInto_empty:
  assumes "domain \<notin> set objectPrototype"
    and "domain = ''permissions'' \<longrightarrow> prototype (getDomains s) = None"
  shows "getPermissionsForDomain domain (assignInto domain [] s) = Some []"
proof -
  from assms(1) have p: "domain \<noteq> ''__proto__''" by (auto simp: objectPrototype_def)
  have "getProperty (getDomains (assignInto domain [] s)) domain = Undefined"
    using assms p by (auto simp: getProperty_def assignInto_own_same assignInto_prototype)
  then show ?thesis by (simp add: getPermissionsForDomain_def)
qed

text \<open>
  C10: for every call \<open>addPermissionsFor(domainName, newPermissions)\<close>, what the
  domain holds afterwards is the capabilities it held under its key whose method is
  not one of the new keys, unchanged, followed by one capability per supplied
  permission, made of the supplied \<open>parentCapability\<close> and \<open>caveats\<close>, the
  \<open>domainName\<close> argument as invoker, and an identifier and a date drawn from \<open>uuid()\<close>
  and the clock at the call. The whole resulting state is the same whatever the
  \<open>id\<close>, \<open>date\<close> and \<open>invoker\<close> of the supplied objects are. (When that list is empty
  the domain's key is deleted, and the lookup returns the empty list unless the name
  is inherited.)
\<close>

theorem addPermissionsFor_stamps:
  "(let stored =
          filter (\<lambda>oldPerm. parentCapability oldPerm \<notin> fst ` set newPermissions)
            (ownPermissions domainName s) @
          map (\<lambda>(i, methodName, newPerm).
                 \<lparr>context_ld = [''https://github.com/MetaMask/json-rpc-capabilities-middleware''],
                  parentCapability = parentCapability newPerm,
                  caveats = caveats newPerm,
                  id_cap = uuid env (uuidCalls s + i),
                  date = now env (uuidCalls s + i),
                  invoker = domainName\<rparr>)
            (enumerate 0 newPermissions);
        s' = addPermissionsFor env domainName newPermissions s
    in (stored \<noteq> [] \<longrightarrow> getPermissionsForDomain domainName s' = Some stored) \<and>
       (stored = [] \<longrightarrow>
          own_props (getDomains s') domainName = None \<and>
          (domainName \<notin> set objectPrototype \<and>
           (domainName = ''permissions'' \<longrightarrow> prototype (getDomains s) = None) \<longrightarrow>
             getPermissionsForDomain domainName s' = Some []))) \<and>
   addPermissionsFor env domainName
     (map (\<lambda>(methodName, newPerm).
             (methodName,
              newPerm\<lparr>id_cap := supplied_id methodName, date := supplied_date methodName,
                       invoker := supplied_invoker methodName\<rparr>)) newPermissions) s
   = addPermissionsFor env domainName newPermissions s"
proof
  have c: "(\<lambda>(i, methodName, newPerm).
                 \<lparr>context_ld = [''https://github.com/MetaMask/json-rpc-capabilities-middleware''],
                  parentCapability = parentCapability newPerm,
                  caveats = caveats newPerm,
                  id_cap = uuid env (uuidCalls s + i),
                  date = now env (uuidCalls s + i),
                  invoker = domainName\<rparr>)
      = (\<lambda>(i, methodName, newPerm).
            Capability env (uuidCalls s + i) (parentCapability newPerm) (caveats newPerm) domainName)"
    by (simp add: Capability_def)
  show "let stored =
          filter (\<lambda>oldPerm. parentCapability oldPerm \<notin> fst ` set newPermissions)
            (ownPermissions domainName s) @
          map (\<lambda>(i, methodName, newPerm).
                 \<lparr>context_ld = [''https://github.com/MetaMask/json-rpc-capabilities-middleware''],
                  parentCapability = parentCapability newPerm,
                  caveats = caveats newPerm,
                  id_cap = uuid env (uuidCalls s + i),
                  date = now env (uuidCalls s + i),
                  invoker = domainName\<rparr>)
            (enumerate 0 newPermissions);
        s' = addPermissionsFor env domainName newPermissions s
    in (stored \<noteq> [] \<longrightarrow> getPermissionsForDomain domainName s' = Some stored) \<and>
       (stored = [] \<longrightarrow>
          own_props (getDomains s') domainName = None \<and>
          (domainName \<notin> set objectPrototype \<and>
           (domainName = ''permissions'' \<longrightarrow> prototype (getDomains s) = None) \<longrightarrow>
             getPermissionsForDomain domainName s' = Some []))"
    unfolding c Let_def addPermissionsFor_assignInto
    by (auto simp: getPermissionsForDomain_assignInto assignInto_own_same
        getPermissionsForDomain_assignInto_empty)
next
  let ?f = "\<lambda>(methodName, newPerm).
             (methodName,
              newPerm\<lparr>id_cap := supplied_id methodName, date := supplied_date methodName,
                       invoker := supplied_invoker methodName\<rparr>)"
  have keys: "fst ` set (map ?f newPermissions) = fst ` set newPermissions"
    by (force simp: image_iff)
  have created:
    "map (\<lambda>(i, methodName, newPerm).
            Capability env (uuidCalls s + i) (parentCapability newPerm) (caveats newPerm) domainName)
       (enumerate 0 (map ?f newPermissions)) =
     map (\<lambda>(i, methodName, newPerm).
            Capability env (uuidCalls s + i) (parentCapability newPerm) (caveats newPerm) domainName)
       (enumerate 0 newPermissions)"
    by (rule map_enumerate_cong) (simp_all add: case_prod_unfold)
  show "addPermissionsFor env domainName (map ?f newPermissions) s
      = addPermissionsFor env domainName newPermissions s"
    unfolding addPermissionsFor_assignInto keys created by simp
qed

theorem addPermissionsFor_stamps_witness:
  "getPermissionsForDomain ''o1''
     (addPermissionsFor env0 ''o1''
        [(''readContacts'',
          \<lparr>context_ld = [], parentCapability = ''readContacts'', caveats = None,
           id_cap = ''reused'', date = 999, invoker = ''evil''\<rparr>)] accounts_state)
     = Some [Capability env0 0 ''readAccounts'' None ''o1'',
             \<lparr>context_ld = [''https://github.com/MetaMask/json-rpc-capabilities-middleware''],
              parentCapability = ''readContacts'', caveats = None,
              id_cap = ''uu'', date = 1, invoker = ''o1''\<rparr>] \<and>
   own_props (getDomains (addPermissionsFor env0 ''o2'' [] accounts_state)) ''o2'' = None \<and>
   getPermissionsForDomain ''o2'' (addPermissionsFor env0 ''o2'' [] accounts_state) = Some []"
proof -
  have o1: "ownPermissions ''o1'' accounts_state = [Capability env0 0 ''readAccounts'' None ''o1'']"
    and o2: "ownPermissions ''o2'' accounts_state = []"
    and u: "uuidCalls accounts_state = 1"
    and p: "prototype (getDomains accounts_state) = None"
    by (simp_all add: ownPermissions_def accounts_state_def oneDomain_def getDomains_def)
  have n: "''o2'' \<notin> set objectPrototype" by (simp add: objectPrototype_def)
  have e: "uuid env0 (Suc 0) = ''uu''" "now env0 (Suc 0) = 1" by (simp_all add: env0_def)
  show ?thesis
    using
      addPermissionsFor_stamps[of
        "[(''readContacts'',
          \<lparr>context_ld = [], parentCapability = ''readContacts'', caveats = None,
           id_cap = ''reused'', date = 999, invoker = ''evil''\<rparr>)]"
        "''o1''" accounts_state env0 "\<lambda>_. ''evil''" "\<lambda>_. 999" "\<lambda>_. ''reused''"]
      addPermissionsFor_stamps[of "[]" "''o2''" accounts_state env0
        "\<lambda>_. ''reused''" "\<lambda>_. 999" "\<lambda>_. ''evil''"]
    by (simp add: o1 o2 u p n e Let_def Capability_def enumerate_eq_zip)
qed



section \<open>The queue of pending requests\<close>

lemma ensureId_has_id:
  assumes "\<forall>n. uuid env n \<noteq> ''''" "ensureId env md s = (md', s')"
  shows "\<not> noId md'"
  using assms by (auto simp: ensureId_def noId_def split: if_splits option.splits)

lemma getFinalizedRequestMetadata_has_id:
  assumes "\<forall>n. uuid env n \<noteq> ''''"
    and "getFinalizedRequestMetadata env md req s = Inr (md', req', s')"
  shows "\<not> noId md'"
  using assms
  by (auto simp: getFinalizedRequestMetadata_def
      split: option.splits if_splits sum.splits prod.splits dest: ensureId_has_id)

lemma getPermissionsRequests_setPermissionsRequests:
  "getPermissionsRequests (setPermissionsRequests reqs s) = reqs"
  by (simp add: getPermissionsRequests_def setPermissionsRequests_def)

lemma getPermissionsRequests_removePermissionsRequest:
  "getPermissionsRequests (removePermissionsRequest requestId s) =
     filter (\<lambda>oldReq. id_meta (metadata oldReq) \<noteq> Some requestId) (getPermissionsRequests s)"
  by (simp add: removePermissionsRequest_def getPermissionsRequests_setPermissionsRequests)

text \<open>A call that waits for approval has finalized its metadata and enqueued its request.\<close>

lemma awaiting_request:
  assumes "requestPermissionsMiddleware env md0 req s = (AwaitApproval pr, s1)"
  shows "\<exists>req1 md req2 s0.
           getFinalizedRequestMetadata env md0 req1 s = Inr (md, req2, s0) \<and>
           metadata pr = md \<and> getPermissionsRequests s1 = getPermissionsRequests s0 @ [pr]"
  using assms
  by (fastforce simp: requestPermissionsMiddleware_def Let_def
      getPermissionsRequests_setPermissionsRequests
      split: sum.splits option.splits prod.splits if_splits bool.splits)

text \<open>
  C7: given that \<open>uuid()\<close> never returns the empty string, every \<open>requestPermissions\<close>
  call that enqueues a pending request has assigned it a non-empty \<open>metadata.id\<close>
  and put it on the queue; and in whatever state \<open>s2\<close> the approval promise settles,
  and however it settles (approval granted, resolved empty, an approved method name
  unknown, or rejected), afterwards the pending request is absent from
  \<open>permissionsRequests\<close>, as is every request with its id.
\<close>

theorem pending_request_removed:
  "(\<forall>n. uuid env n \<noteq> '''') \<and>
   requestPermissionsMiddleware env md0 req s = (AwaitApproval pr, s1) \<longrightarrow>
     (\<exists>i. id_meta (metadata pr) = Some i \<and> i \<noteq> '''') \<and>
     pr \<in> set (getPermissionsRequests s1) \<and>
     (\<forall>settled s2.
        pr \<notin> set (getPermissionsRequests (snd (approvalSettled env cfg pr settled s2))) \<and>
        (\<forall>q \<in> set (getPermissionsRequests (snd (approvalSettled env cfg pr settled s2))).
           id_meta (metadata q) \<noteq> id_meta (metadata pr)))"
proof (intro impI)
  assume a: "(\<forall>n. uuid env n \<noteq> '''') \<and>
    requestPermissionsMiddleware env md0 req s = (AwaitApproval pr, s1)"
  from a awaiting_request[of env md0 req s pr s1]
  obtain req1 md req2 s0 where
    m: "getFinalizedRequestMetadata env md0 req1 s = Inr (md, req2, s0)"
    and p: "metadata pr = md" and q: "getPermissionsRequests s1 = getPermissionsRequests s0 @ [pr]"
    by blast
  from a m have "\<not> noId md" by (blast dest: getFinalizedRequestMetadata_has_id)
  with p obtain i where i: "id_meta (metadata pr) = Some i" "i \<noteq> ''''"
    by (auto simp: noId_def split: option.splits)
  have nid: "\<not> noId (metadata pr)" using i by (simp add: noId_def)
  have fin: "getPermissionsRequests (snd (approvalSettled env cfg pr settled s2)) =
      filter (\<lambda>oldReq. id_meta (metadata oldReq) \<noteq> Some i)
        (getPermissionsRequests (snd (case settled of
           Resolved approved \<Rightarrow>
             (if length approved = 0 then (End_error USER_REJECTED_ERROR, s2)
              else grantNewPermissions env cfg (origin (metadata pr)) approved s2)
         | Rejected reason \<Rightarrow> (End_error (Rejection reason), s2))))"
    for settled s2
    using i nid
    by (simp add: approvalSettled_def Let_def getPermissionsRequests_removePermissionsRequest
        split: approval.splits)
  show "(\<exists>i. id_meta (metadata pr) = Some i \<and> i \<noteq> '''') \<and>
     pr \<in> set (getPermissionsRequests s1) \<and>
     (\<forall>settled s2.
        pr \<notin> set (getPermissionsRequests (snd (approvalSettled env cfg pr settled s2))) \<and>
        (\<forall>q \<in> set (getPermissionsRequests (snd (approvalSettled env cfg pr settled s2))).
           id_meta (metadata q) \<noteq> id_meta (metadata pr)))"
    using i q by (auto simp: fin)
qed

theorem pending_request_removed_witness:
  "(\<forall>n. uuid env0 n \<noteq> '''') \<and>
   requestPermissionsMiddleware env0 \<lparr>origin = ''o1'', id_meta = None\<rparr>
     \<lparr>method_rpc = ''wallet_requestPermissions'',
      params = Some [PObject [(''readAccounts'', Descriptor None)]]\<rparr> empty_state
     = (AwaitApproval pending_request :: (nat, string) outcome, pending_state) \<and>
   id_meta (metadata pending_request) = Some ''u'' \<and>
   pending_request \<in> set (getPermissionsRequests pending_state) \<and>
   pending_request \<notin> set (getPermissionsRequests (snd
     (approvalSettled env0 wallet_cfg pending_request (Resolved [(''readAccounts'', None)])
        pending_state))) \<and>
   pending_request \<notin> set (getPermissionsRequests (snd
     (approvalSettled env0 wallet_cfg pending_request (Resolved []) pending_state))) \<and>
   pending_request \<notin> set (getPermissionsRequests (snd
     (approvalSettled env0 wallet_cfg pending_request (Resolved [(''bogus'', None)])
        pending_state))) \<and>
   pending_request \<notin> set (getPermissionsRequests (snd
     (approvalSettled env0 wallet_cfg pending_request (Rejected ''closed'') pending_state)))"
proof -
  have u: "\<forall>n. uuid env0 n \<noteq> ''''" by (simp add: env0_def)
  have r: "requestPermissionsMiddleware env0 \<lparr>origin = ''o1'', id_meta = None\<rparr>
     \<lparr>method_rpc = ''wallet_requestPermissions'',
      params = Some [PObject [(''readAccounts'', Descriptor None)]]\<rparr> empty_state
     = (AwaitApproval pending_request :: (nat, string) outcome, pending_state)"
    by (simp add: requestPermissionsMiddleware_def finalizePermissionsRequest_def
        getFinalizedRequestMetadata_def ensureId_def noId_def requestedPermissions_def
        hasPermissions_def existingByMethod_def assignIndex_def existingProperty_def
        getPermissionsForDomain_def
        getProperty_def emptyObject_def objectPrototype_def getDomains_def
        getPermissionsRequests_def setPermissionsRequests_def
        empty_state_def pending_request_def pending_state_def env0_def Let_def)
  have c: "pending_request \<in> set (getPermissionsRequests pending_state) \<and>
      (\<forall>settled s2. pending_request \<notin> set (getPermissionsRequests
         (snd (approvalSettled env0 wallet_cfg pending_request settled s2))))"
    using u r
      pending_request_removed[of env0 "\<lparr>origin = ''o1'', id_meta = None\<rparr>"
         "\<lparr>method_rpc = ''wallet_requestPermissions'',
           params = Some [PObject [(''readAccounts'', Descriptor None)]]\<rparr>"
         empty_state pending_request pending_state wallet_cfg]
    by blast
  have i: "id_meta (metadata pending_request) = Some ''u''"
    by (simp add: pending_request_def)
  show ?thesis using u r c i by blast
qed

end
